theory Spec2Isabelle
  imports Main "HOL-Library.Word"
begin

unbundle bit_operations_syntax

section \<open>Data model\<close>

text \<open>
  A Python \<open>bytes\<close> object is a list of 8-bit words. A Python \<open>str\<close> is a list of Unicode
  code points (natural numbers): the parser produces U+FFFD when it decodes an undecodable
  byte and the tables hold flag glyphs beyond the Latin-1 range, so an 8-bit character
  type would not do. \<open>str\<close> embeds an ASCII literal. Python integers are \<open>int\<close>.
\<close>

type_synonym byte = "8 word"
type_synonym pystr = "nat list"

definition str :: "string \<Rightarrow> pystr" where
  "str s = map of_char s"

subsection \<open>Byte-order transforms\<close>

text \<open>
  \<open>swap_bytes_n64\<close>: the loop \<open>for i in range(0, len(data), 4)\<close> over a result array that
  starts as \<open>bytearray(len(data))\<close> (all zero). A full group is written back reversed by
  four index assignments; a trailing partial group is copied by the slice assignment
  \<open>result[i:] = data[i:]\<close>. The index assignments are in range whenever the result array
  is as long as the data, which is how the loop is entered.
\<close>

function swap_n64_loop :: "byte list \<Rightarrow> nat \<Rightarrow> byte list \<Rightarrow> byte list" where
  "swap_n64_loop data i result =
     (if length data \<le> i then result
      else if i + 4 \<le> length data then
        swap_n64_loop data (i + 4)
          (result[i := data ! (i + 3), i + 1 := data ! (i + 2),
                  i + 2 := data ! (i + 1), i + 3 := data ! i])
      else swap_n64_loop data (i + 4) (take i result @ drop i data))"
  by pat_completeness auto
termination
  by (relation "measure (\<lambda>(data, i, result). length data - i)") auto

declare swap_n64_loop.simps [simp del]

definition swap_bytes_n64 :: "byte list \<Rightarrow> byte list" where
  "swap_bytes_n64 data = swap_n64_loop data 0 (replicate (length data) 0)"

text \<open>\<open>swap_bytes_v64\<close>: the same loop with a stride of two.\<close>

function swap_v64_loop :: "byte list \<Rightarrow> nat \<Rightarrow> byte list \<Rightarrow> byte list" where
  "swap_v64_loop data i result =
     (if length data \<le> i then result
      else if i + 2 \<le> length data then
        swap_v64_loop data (i + 2) (result[i := data ! (i + 1), i + 1 := data ! i])
      else swap_v64_loop data (i + 2) (take i result @ drop i data))"
  by pat_completeness auto
termination
  by (relation "measure (\<lambda>(data, i, result). length data - i)") auto

declare swap_v64_loop.simps [simp del]

definition swap_bytes_v64 :: "byte list \<Rightarrow> byte list" where
  "swap_bytes_v64 data = swap_v64_loop data 0 (replicate (length data) 0)"

text \<open>
  The two transforms written by recursion on the list, one group per step. They are
  proved equal to the loops below and carry the algebra.
\<close>

fun word_swap :: "'a list \<Rightarrow> 'a list" where
  "word_swap (a # b # c # d # xs) = d # c # b # a # word_swap xs"
| "word_swap xs = xs"

fun halfword_swap :: "'a list \<Rightarrow> 'a list" where
  "halfword_swap (a # b # xs) = b # a # halfword_swap xs"
| "halfword_swap xs = xs"

subsection \<open>Format detection\<close>

text \<open>
  \<open>detect_rom_format\<close> returns a pair: the format name, or Python's \<open>None\<close> when fewer than
  four bytes are supplied, and the swap function to apply, or \<open>None\<close>.
\<close>

definition detect_rom_format ::
  "byte list \<Rightarrow> pystr option \<times> (byte list \<Rightarrow> byte list) option" where
  "detect_rom_format header_bytes =
     (if length header_bytes < 4 then (None, None)
      else let first_4 = take 4 header_bytes in
        if first_4 ! 0 = 0x80 \<and> first_4 ! 1 = 0x37 then (Some (str ''z64''), None)
        else if first_4 ! 0 = 0x40 \<and> first_4 ! 3 = 0x80 then (Some (str ''n64''), Some swap_bytes_n64)
        else if first_4 ! 0 = 0x37 \<and> first_4 ! 1 = 0x80 then (Some (str ''v64''), Some swap_bytes_v64)
        else if first_4 ! 0 = 0x80 then (Some (str ''z64''), None)
        else (Some (str ''unknown''), None))"

section \<open>The ROM header parser\<close>

subsection \<open>Lookup tables\<close>

text \<open>
  The three module-level dictionaries, as association lists in insertion order (the order
  in which Python iterates a dictionary). No key occurs twice in any of them.
\<close>

record region_info =
  ri_region :: pystr
  ri_country :: pystr
  ri_video :: pystr
  ri_hz :: int
  ri_flag :: pystr

definition N64_COUNTRY_CODES :: "(int \<times> region_info) list" where
  "N64_COUNTRY_CODES = [
    (0x37, \<lparr>ri_region = str ''NTSC-B'', ri_country = str ''Brazil'', ri_video = str ''NTSC'',
           ri_hz = 60, ri_flag = [0x1F1E7, 0x1F1F7]\<rparr>),
    (0x41, \<lparr>ri_region = str ''NTSC-J'', ri_country = str ''Japan/Asia'', ri_video = str ''NTSC'',
           ri_hz = 60, ri_flag = [0x1F1EF, 0x1F1F5]\<rparr>),
    (0x44, \<lparr>ri_region = str ''PAL-G'', ri_country = str ''Germany'', ri_video = str ''PAL'',
           ri_hz = 50, ri_flag = [0x1F1E9, 0x1F1EA]\<rparr>),
    (0x45, \<lparr>ri_region = str ''NTSC-U'', ri_country = str ''USA'', ri_video = str ''NTSC'',
           ri_hz = 60, ri_flag = [0x1F1FA, 0x1F1F8]\<rparr>),
    (0x46, \<lparr>ri_region = str ''PAL-F'', ri_country = str ''France'', ri_video = str ''PAL'',
           ri_hz = 50, ri_flag = [0x1F1EB, 0x1F1F7]\<rparr>),
    (0x47, \<lparr>ri_region = str ''PAL-G'', ri_country = str ''Germany'', ri_video = str ''PAL'',
           ri_hz = 50, ri_flag = [0x1F1E9, 0x1F1EA]\<rparr>),
    (0x48, \<lparr>ri_region = str ''PAL-NL'', ri_country = str ''Netherlands'', ri_video = str ''PAL'',
           ri_hz = 50, ri_flag = [0x1F1F3, 0x1F1F1]\<rparr>),
    (0x49, \<lparr>ri_region = str ''PAL-I'', ri_country = str ''Italy'', ri_video = str ''PAL'',
           ri_hz = 50, ri_flag = [0x1F1EE, 0x1F1F9]\<rparr>),
    (0x4A, \<lparr>ri_region = str ''NTSC-J'', ri_country = str ''Japan'', ri_video = str ''NTSC'',
           ri_hz = 60, ri_flag = [0x1F1EF, 0x1F1F5]\<rparr>),
    (0x4B, \<lparr>ri_region = str ''NTSC-K'', ri_country = str ''Korea'', ri_video = str ''NTSC'',
           ri_hz = 60, ri_flag = [0x1F1F0, 0x1F1F7]\<rparr>),
    (0x4C, \<lparr>ri_region = str ''PAL-X'', ri_country = str ''Gateway (PAL)'', ri_video = str ''PAL'',
           ri_hz = 50, ri_flag = [0x1F30D]\<rparr>),
    (0x4E, \<lparr>ri_region = str ''NTSC-C'', ri_country = str ''Canada'', ri_video = str ''NTSC'',
           ri_hz = 60, ri_flag = [0x1F1E8, 0x1F1E6]\<rparr>),
    (0x50, \<lparr>ri_region = str ''PAL'', ri_country = str ''Europe'', ri_video = str ''PAL'',
           ri_hz = 50, ri_flag = [0x1F1EA, 0x1F1FA]\<rparr>),
    (0x53, \<lparr>ri_region = str ''PAL-S'', ri_country = str ''Spain'', ri_video = str ''PAL'',
           ri_hz = 50, ri_flag = [0x1F1EA, 0x1F1F8]\<rparr>),
    (0x55, \<lparr>ri_region = str ''PAL-A'', ri_country = str ''Australia'', ri_video = str ''PAL'',
           ri_hz = 50, ri_flag = [0x1F1E6, 0x1F1FA]\<rparr>),
    (0x57, \<lparr>ri_region = str ''PAL-SC'', ri_country = str ''Scandinavia'', ri_video = str ''PAL'',
           ri_hz = 50, ri_flag = [0x1F1F8, 0x1F1EA]\<rparr>),
    (0x58, \<lparr>ri_region = str ''PAL-X'', ri_country = str ''Europe (X)'', ri_video = str ''PAL'',
           ri_hz = 50, ri_flag = [0x1F1EA, 0x1F1FA]\<rparr>),
    (0x59, \<lparr>ri_region = str ''PAL-X'', ri_country = str ''Europe (Y)'', ri_video = str ''PAL'',
           ri_hz = 50, ri_flag = [0x1F1EA, 0x1F1FA]\<rparr>),
    (0x00, \<lparr>ri_region = str ''Demo'', ri_country = str ''Demo/Beta'', ri_video = str ''NTSC'',
           ri_hz = 60, ri_flag = [0x1F3AE]\<rparr>),
    (0x42, \<lparr>ri_region = str ''NTSC-B'', ri_country = str ''Brazil'', ri_video = str ''NTSC'',
           ri_hz = 60, ri_flag = [0x1F1E7, 0x1F1F7]\<rparr>),
    (0x43, \<lparr>ri_region = str ''NTSC-C'', ri_country = str ''China'', ri_video = str ''NTSC'',
           ri_hz = 60, ri_flag = [0x1F1E8, 0x1F1F3]\<rparr>)]"

record cic_info =
  cic_name :: pystr
  cic_region :: pystr
  cic_games :: "pystr option"

definition CIC_CHIPS :: "(int \<times> cic_info) list" where
  "CIC_CHIPS = [
    (0x6170A4A1, \<lparr>cic_name = str ''CIC-NUS-6101'', cic_region = str ''NTSC-J'', cic_games = Some (str ''Starfox 64 JP'')\<rparr>),
    (0x90BB6CB5, \<lparr>cic_name = str ''CIC-NUS-6102'', cic_region = str ''NTSC-U/PAL'', cic_games = Some (str ''Most NTSC & PAL games'')\<rparr>),
    (0x0B050EE0, \<lparr>cic_name = str ''CIC-NUS-6103'', cic_region = str ''NTSC-U/PAL'', cic_games = Some (str ''Banjo-Kazooie, Paper Mario'')\<rparr>),
    (0x98BC2C86, \<lparr>cic_name = str ''CIC-NUS-6105'', cic_region = str ''NTSC-U/PAL'', cic_games = Some (str ''Zelda OoT, Majora's Mask'')\<rparr>),
    (0xACC8580A, \<lparr>cic_name = str ''CIC-NUS-6106'', cic_region = str ''NTSC-U/PAL'', cic_games = Some (str ''F-Zero X, Yoshi's Story'')\<rparr>),
    (0x009E9EA3, \<lparr>cic_name = str ''CIC-NUS-7102'', cic_region = str ''PAL'', cic_games = Some (str ''Lylat Wars PAL'')\<rparr>),
    (0x3F, \<lparr>cic_name = str ''CIC-6101'', cic_region = str ''NTSC-J'', cic_games = None\<rparr>),
    (0x3F01, \<lparr>cic_name = str ''CIC-6102'', cic_region = str ''NTSC/PAL'', cic_games = None\<rparr>),
    (0x783F, \<lparr>cic_name = str ''CIC-6103'', cic_region = str ''NTSC/PAL'', cic_games = None\<rparr>),
    (0x913F, \<lparr>cic_name = str ''CIC-6105'', cic_region = str ''NTSC/PAL'', cic_games = None\<rparr>),
    (0x853F, \<lparr>cic_name = str ''CIC-6106'', cic_region = str ''NTSC/PAL'', cic_games = None\<rparr>)]"

definition SAVE_TYPES :: "(pystr \<times> pystr list) list" where
  "SAVE_TYPES = [
    (str ''EEPROM_4K'',
       [str ''NSM'', str ''NDY'', str ''NWT'', str ''NWQ'', str ''NW2'', str ''N3D'',
        str ''NAD'', str ''NB5'', str ''NBD'', str ''NBC'']),
    (str ''EEPROM_16K'',
       [str ''NZL'', str ''NMQ'', str ''NPN'', str ''NPW'', str ''NPY'', str ''NRE'',
        str ''NRZ'', str ''NSA'', str ''NTE'', str ''NVY'']),
    (str ''SRAM_256K'',
       [str ''NER'', str ''NJF'', str ''NKJ'', str ''NMF'', str ''NRI'', str ''NS6'',
        str ''NTJ'', str ''NUB'', str ''NYK'']),
    (str ''FLASH_1M'',
       [str ''NCC'', str ''NDA'', str ''NDO'', str ''NDP'', str ''NFZ'', str ''NGE'',
        str ''NJM'', str ''NKA'', str ''NKI'', str ''NM8'', str ''NMV'', str ''NMW'',
        str ''NPD'', str ''NR7'', str ''NRH'', str ''NSI'', str ''NW4'', str ''NZS'']),
    (str ''CPAK'',
       [str ''N64'', str ''NB7'', str ''NCH'', str ''NCT'', str ''NCU'', str ''NCW'',
        str ''NEA'', str ''NEP'', str ''NFH'', str ''NFU'', str ''NGL'', str ''NGV'',
        str ''NHA'', str ''NHP'', str ''NIB'', str ''NIR'', str ''NJG'', str ''NK2'',
        str ''NK4'', str ''NKT''])]"

subsection \<open>Library functions the parser calls\<close>

text \<open>
  Python raises where HOL would return an unspecified value; every such place is an
  explicit exception value here.
\<close>

datatype py_exception = Struct_Error | Index_Error | OS_Error | Unicode_Encode_Error

text \<open>\<open>xs[a:b]\<close> for constant bounds \<open>0 \<le> a \<le> b\<close>: slicing clamps and never raises.\<close>

definition py_slice :: "nat \<Rightarrow> nat \<Rightarrow> 'a list \<Rightarrow> 'a list" where
  "py_slice a b xs = drop a (take b xs)"

text \<open>\<open>xs[k]\<close> for a constant index \<open>k \<ge> 0\<close>: raises IndexError out of range.\<close>

definition byte_at :: "byte list \<Rightarrow> nat \<Rightarrow> py_exception + byte" where
  "byte_at xs k = (if k < length xs then Inr (xs ! k) else Inl Index_Error)"

text \<open>\<open>struct.unpack(">I", bs)[0]\<close>: a big-endian unsigned 32-bit integer; raises
  \<open>struct.error\<close> unless exactly four bytes are supplied.\<close>

definition unpack_be_u32 :: "byte list \<Rightarrow> py_exception + int" where
  "unpack_be_u32 bs =
     (if length bs \<noteq> 4 then Inl Struct_Error
      else Inr (uint (bs ! 0) * 2 ^ 24 + uint (bs ! 1) * 2 ^ 16 + uint (bs ! 2) * 2 ^ 8
                + uint (bs ! 3)))"

text \<open>\<open>bs.decode("ascii", errors="replace")\<close>: one character per byte, U+FFFD for a byte
  of 0x80 or more.\<close>

definition decode_ascii_replace :: "byte list \<Rightarrow> pystr" where
  "decode_ascii_replace bs = map (\<lambda>b. if unat b < 128 then unat b else 0xFFFD) bs"

text \<open>\<open>str.isspace\<close> of one character: the Unicode white space code points.\<close>

definition py_isspace :: "nat \<Rightarrow> bool" where
  "py_isspace c \<longleftrightarrow>
     (9 \<le> c \<and> c \<le> 13) \<or> (28 \<le> c \<and> c \<le> 32) \<or> c = 0x85 \<or> c = 0xA0 \<or> c = 0x1680 \<or>
     (0x2000 \<le> c \<and> c \<le> 0x200A) \<or> c = 0x2028 \<or> c = 0x2029 \<or> c = 0x202F \<or>
     c = 0x205F \<or> c = 0x3000"

text \<open>\<open>s.strip()\<close>: leading and trailing white space removed.\<close>

definition strip :: "pystr \<Rightarrow> pystr" where
  "strip s = rev (dropWhile py_isspace (rev (dropWhile py_isspace s)))"

text \<open>
  \<open>str.isprintable\<close> of one character, on the characters the parser applies it to: the
  result of \<open>decode_ascii_replace\<close>, that is ASCII (printable from the space to the tilde)
  and U+FFFD (a symbol, printable).
\<close>

definition py_isprintable :: "nat \<Rightarrow> bool" where
  "py_isprintable c \<longleftrightarrow> (32 \<le> c \<and> c \<le> 126) \<or> c = 0xFFFD"

text \<open>\<open>s.replace("_", " ")\<close>.\<close>

definition replace_underscore :: "pystr \<Rightarrow> pystr" where
  "replace_underscore s = map (\<lambda>c. if c = 95 then 32 else c) s"

text \<open>\<open>f"{n:02X}"\<close>: upper-case hexadecimal, zero-padded after the sign to a width of 2.\<close>

definition hex_digit_upper :: "nat \<Rightarrow> nat" where
  "hex_digit_upper d = (if d < 10 then 48 + d else 55 + d)"

function hex_upper :: "nat \<Rightarrow> pystr" where
  "hex_upper n =
     (if n < 16 then [hex_digit_upper n]
      else hex_upper (n div 16) @ [hex_digit_upper (n mod 16)])"
  by pat_completeness auto
termination
  by (relation "measure id") auto

declare hex_upper.simps [simp del]

definition format_02X :: "int \<Rightarrow> pystr" where
  "format_02X n =
     (let sign = (if n < 0 then str ''-'' else []);
          digits = hex_upper (nat \<bar>n\<bar>)
      in sign @ replicate (2 - (length sign + length digits)) 48 @ digits)"

subsection \<open>The parsed object\<close>

text \<open>
  The attributes of an \<open>N64RomInfo\<close> object, apart from \<open>path\<close>, which only names the
  file. \<open>format\<close> can hold \<open>None\<close>, since \<open>detect_rom_format\<close> can return it.
\<close>

record rom_info =
  format :: "pystr option"
  internal_name :: pystr
  cartridge_id :: pystr
  country_code :: int
  region :: pystr
  country :: pystr
  video_mode :: pystr
  refresh_hz :: int
  flag :: pystr
  crc1 :: int
  crc2 :: int
  cic_chip :: pystr
  save_type :: pystr
  rom_version :: int
  manufacturer :: pystr
  entry_point :: int
  size_bytes :: int
  size_mbits :: int
  md5 :: pystr
  valid :: bool

text \<open>The attribute values \<open>__init__\<close> assigns before it calls \<open>_parse\<close>.\<close>

definition init_info :: rom_info where
  "init_info =
     \<lparr>format = Some (str ''unknown''), internal_name = [], cartridge_id = [],
      country_code = 0, region = str ''Unknown'', country = str ''Unknown'',
      video_mode = str ''NTSC'', refresh_hz = 60, flag = [0x1F3AE], crc1 = 0, crc2 = 0,
      cic_chip = str ''Unknown'', save_type = str ''Unknown'', rom_version = 0,
      manufacturer = str ''N'', entry_point = 0, size_bytes = 0, size_mbits = 0,
      md5 = [], valid = False\<rparr>"

subsection \<open>Region, CIC and save-type classification\<close>

definition parse_country :: "rom_info \<Rightarrow> rom_info" where
  "parse_country s =
     (case map_of N64_COUNTRY_CODES (country_code s) of
        Some info \<Rightarrow>
          s\<lparr>region := ri_region info, country := ri_country info,
            video_mode := ri_video info, refresh_hz := ri_hz info, flag := ri_flag info\<rparr>
      | None \<Rightarrow>
          s\<lparr>region := str ''0x'' @ format_02X (country_code s), country := str ''Unknown'',
            video_mode := str ''NTSC'', refresh_hz := 60, flag := [0x2753]\<rparr>)"

text \<open>\<open>sum(bootcode[:4032]) & 0xFFFFFFFF\<close>.\<close>

definition cic_checksum :: "byte list \<Rightarrow> int" where
  "cic_checksum bootcode = sum_list (map uint (take 4032 bootcode)) AND 0xFFFFFFFF"

text \<open>
  The loop over \<open>CIC_CHIPS.items()\<close>: the name of the first entry whose key exceeds
  0xFFFF and lies within 0x10000 of the checksum; \<open>None\<close> when the loop ends without
  a match. (\<open>isinstance(checksum, int)\<close> holds of every key.)
\<close>

fun cic_table_match :: "(int \<times> cic_info) list \<Rightarrow> int \<Rightarrow> pystr option" where
  "cic_table_match [] cs = None"
| "cic_table_match ((checksum, info) # rest) cs =
     (if checksum > 0xFFFF \<and> \<bar>cs - checksum\<bar> < 0x10000 then Some (cic_name info)
      else cic_table_match rest cs)"

definition cic_entry_fallback :: "int \<Rightarrow> pystr" where
  "cic_entry_fallback entry =
     (if entry = 0x80000400 then str ''CIC-6101''
      else if entry = 0x80000480 then str ''CIC-6103''
      else if entry = 0x800004C0 then str ''CIC-6106''
      else str ''CIC-6102'')"

definition detect_cic :: "byte list \<Rightarrow> rom_info \<Rightarrow> rom_info" where
  "detect_cic bootcode s =
     (if length bootcode < 4032 then s\<lparr>cic_chip := str ''Unknown''\<rparr>
      else case cic_table_match CIC_CHIPS (cic_checksum bootcode) of
             Some name \<Rightarrow> s\<lparr>cic_chip := name\<rparr>
           | None \<Rightarrow> s\<lparr>cic_chip := cic_entry_fallback (entry_point s)\<rparr>)"

text \<open>
  The loop over \<open>SAVE_TYPES.items()\<close>: the key of the first bucket that holds the game
  code or the cartridge id, underscores replaced by spaces.
\<close>

fun save_type_match :: "(pystr \<times> pystr list) list \<Rightarrow> pystr \<Rightarrow> pystr \<Rightarrow> pystr option" where
  "save_type_match [] game_code cart = None"
| "save_type_match ((bucket, codes) # rest) game_code cart =
     (if game_code \<in> set codes \<or> cart \<in> set codes then Some (replace_underscore bucket)
      else save_type_match rest game_code cart)"

definition save_type_by_size :: "int \<Rightarrow> pystr" where
  "save_type_by_size mbits =
     (if mbits \<ge> 256 then str ''FlashRAM''
      else if mbits \<ge> 64 then str ''SRAM''
      else str ''EEPROM'')"

definition detect_save_type :: "rom_info \<Rightarrow> rom_info" where
  "detect_save_type s =
     (let game_code = manufacturer s @ cartridge_id s in
      case save_type_match SAVE_TYPES game_code (cartridge_id s) of
        Some t \<Rightarrow> s\<lparr>save_type := t\<rparr>
      | None \<Rightarrow> s\<lparr>save_type := save_type_by_size (size_mbits s)\<rparr>)"

text \<open>
  The save-type matcher as a reading that looks only for the game code in the buckets,
  to be compared with \<open>detect_save_type\<close>.
\<close>

fun save_type_match_game_code_only :: "(pystr \<times> pystr list) list \<Rightarrow> pystr \<Rightarrow> pystr option" where
  "save_type_match_game_code_only [] game_code = None"
| "save_type_match_game_code_only ((bucket, codes) # rest) game_code =
     (if game_code \<in> set codes then Some (replace_underscore bucket)
      else save_type_match_game_code_only rest game_code)"

definition detect_save_type_game_code_only :: "rom_info \<Rightarrow> rom_info" where
  "detect_save_type_game_code_only s =
     (let game_code = manufacturer s @ cartridge_id s in
      case save_type_match_game_code_only SAVE_TYPES game_code of
        Some t \<Rightarrow> s\<lparr>save_type := t\<rparr>
      | None \<Rightarrow> s\<lparr>save_type := save_type_by_size (size_mbits s)\<rparr>)"

subsection \<open>Header fields\<close>

text \<open>
  \<open>_parse_header\<close> assigns the attributes one statement after the other. A statement that
  raises leaves the object as the statements before it made it, so the result is the
  exception, if any, together with the object.
\<close>

definition clean_name :: "byte list \<Rightarrow> pystr" where
  "clean_name raw_name =
     strip (map (\<lambda>c. if py_isprintable c then c else 32)
              (strip (decode_ascii_replace raw_name)))"

definition parse_header ::
  "rom_info \<Rightarrow> byte list \<Rightarrow> byte list \<Rightarrow> py_exception option \<times> rom_info" where
  "parse_header s0 header bootcode =
     (case unpack_be_u32 (py_slice 0x08 0x0C header) of
        Inl e \<Rightarrow> (Some e, s0)
      | Inr ep \<Rightarrow>
     let s1 = s0\<lparr>entry_point := ep\<rparr> in
     case unpack_be_u32 (py_slice 0x10 0x14 header) of
        Inl e \<Rightarrow> (Some e, s1)
      | Inr c1 \<Rightarrow>
     let s2 = s1\<lparr>crc1 := c1\<rparr> in
     case unpack_be_u32 (py_slice 0x14 0x18 header) of
        Inl e \<Rightarrow> (Some e, s2)
      | Inr c2 \<Rightarrow>
     let s3 = s2\<lparr>crc2 := c2, internal_name := clean_name (py_slice 0x20 0x34 header)\<rparr> in
     case byte_at header 0x3B of
        Inl e \<Rightarrow> (Some e, s3)
      | Inr m \<Rightarrow>
     let s4 = s3\<lparr>manufacturer := (if m \<noteq> 0 then [unat m] else str ''N''),
                 cartridge_id := decode_ascii_replace (py_slice 0x3C 0x3E header)\<rparr> in
     case byte_at header 0x3E of
        Inl e \<Rightarrow> (Some e, s4)
      | Inr cc \<Rightarrow>
     let s5 = parse_country (s4\<lparr>country_code := uint cc\<rparr>) in
     case byte_at header 0x3F of
        Inl e \<Rightarrow> (Some e, s5)
      | Inr ver \<Rightarrow>
     (None, detect_save_type (detect_cic bootcode (s5\<lparr>rom_version := uint ver\<rparr>))))"

text \<open>
  \<open>_parse_header\<close> with the game-code-only reading of the save-type matcher in its last
  step, to be compared with \<open>parse_header\<close>.
\<close>

definition parse_header_game_code_only ::
  "rom_info \<Rightarrow> byte list \<Rightarrow> byte list \<Rightarrow> py_exception option \<times> rom_info" where
  "parse_header_game_code_only s0 header bootcode =
     (case unpack_be_u32 (py_slice 0x08 0x0C header) of
        Inl e \<Rightarrow> (Some e, s0)
      | Inr ep \<Rightarrow>
     let s1 = s0\<lparr>entry_point := ep\<rparr> in
     case unpack_be_u32 (py_slice 0x10 0x14 header) of
        Inl e \<Rightarrow> (Some e, s1)
      | Inr c1 \<Rightarrow>
     let s2 = s1\<lparr>crc1 := c1\<rparr> in
     case unpack_be_u32 (py_slice 0x14 0x18 header) of
        Inl e \<Rightarrow> (Some e, s2)
      | Inr c2 \<Rightarrow>
     let s3 = s2\<lparr>crc2 := c2, internal_name := clean_name (py_slice 0x20 0x34 header)\<rparr> in
     case byte_at header 0x3B of
        Inl e \<Rightarrow> (Some e, s3)
      | Inr m \<Rightarrow>
     let s4 = s3\<lparr>manufacturer := (if m \<noteq> 0 then [unat m] else str ''N''),
                 cartridge_id := decode_ascii_replace (py_slice 0x3C 0x3E header)\<rparr> in
     case byte_at header 0x3E of
        Inl e \<Rightarrow> (Some e, s4)
      | Inr cc \<Rightarrow>
     let s5 = parse_country (s4\<lparr>country_code := uint cc\<rparr>) in
     case byte_at header 0x3F of
        Inl e \<Rightarrow> (Some e, s5)
      | Inr ver \<Rightarrow>
     (None, detect_save_type_game_code_only
              (detect_cic bootcode (s5\<lparr>rom_version := uint ver\<rparr>))))"

subsection \<open>Reading the file\<close>

text \<open>
  What the constructor meets at the path. \<open>exists()\<close> raises (a PermissionError, for a
  directory that cannot be searched); or nothing is there; or \<open>stat()\<close> raises although
  \<open>exists()\<close> answered (the file went away in between); or there is a file, with its bytes
  and the step of the \<open>try\<close> block, if any, at which the operating system or the hash
  library raises (opening the file, the read of the first 0x1000 bytes, or the seek, read
  and MD5 of the digest). \<open>st_size\<close> is the number of bytes. The MD5 hex digest is a
  parameter, \<open>md5hex\<close>.
\<close>

datatype io_fault = No_Fault | Fault_Open | Fault_Read_Header | Fault_Digest

datatype fs_entry = Exists_Raises | Missing | Stat_Raises | File "byte list" io_fault

text \<open>The body of the \<open>try\<close> block: the exception it raises, if any, and the object.\<close>

definition parse_try ::
  "(byte list \<Rightarrow> pystr) \<Rightarrow> byte list \<Rightarrow> io_fault \<Rightarrow> rom_info \<Rightarrow> py_exception option \<times> rom_info" where
  "parse_try md5hex content fault s =
     (if fault = Fault_Open then (Some OS_Error, s)
      else if fault = Fault_Read_Header then (Some OS_Error, s)
      else
        let raw_header = take 0x1000 content in
        if length raw_header < 64 then (None, s)
        else
          let (fmt, swap_func) = detect_rom_format raw_header;
              s1 = s\<lparr>format := fmt\<rparr>;
              header = (case swap_func of
                          Some f \<Rightarrow> f (take 64 raw_header)
                        | None \<Rightarrow> take 64 raw_header);
              bootcode = (case swap_func of
                            Some f \<Rightarrow> f (py_slice 0x40 0x1000 raw_header)
                          | None \<Rightarrow> py_slice 0x40 0x1000 raw_header)
          in case parse_header s1 header bootcode of
               (Some e, s2) \<Rightarrow> (Some e, s2)
             | (None, s2) \<Rightarrow>
                 if fault = Fault_Digest then (Some OS_Error, s2)
                 else
                   let md5_data = take (nat (min (1024 * 1024) (size_bytes s2))) content
                   in (None, s2\<lparr>md5 := take 16 (md5hex md5_data), valid := True\<rparr>))"

text \<open>
  \<open>_parse\<close>. \<open>exists()\<close> and \<open>stat()\<close> are called before the \<open>try\<close> block, so what they raise
  leaves \<open>_parse\<close>. The \<open>except Exception\<close> clause prints a line with the file name and
  the exception and returns, so the object is what the \<open>try\<close> block left; but the \<open>print\<close>
  itself can raise (a UnicodeEncodeError, for a file name that standard output cannot
  encode), and that exception leaves \<open>_parse\<close> too. \<open>print_fault\<close> is what that \<open>print\<close>
  raises, if anything.
\<close>

definition parse ::
  "(byte list \<Rightarrow> pystr) \<Rightarrow> py_exception option \<Rightarrow> fs_entry \<Rightarrow> rom_info \<Rightarrow>
   py_exception + rom_info" where
  "parse md5hex print_fault entry s =
     (case entry of
        Exists_Raises \<Rightarrow> Inl OS_Error
      | Missing \<Rightarrow> Inr s
      | Stat_Raises \<Rightarrow> Inl OS_Error
      | File content fault \<Rightarrow>
          let s1 = s\<lparr>size_bytes := int (length content)\<rparr>;
              s2 = s1\<lparr>size_mbits := (size_bytes s1 * 8) div (1024 * 1024)\<rparr>
          in case parse_try md5hex content fault s2 of
               (None, r) \<Rightarrow> Inr r
             | (Some e, r) \<Rightarrow>
                 (case print_fault of
                    None \<Rightarrow> Inr r
                  | Some print_error \<Rightarrow> Inl print_error))"

text \<open>
  The constructor \<open>N64RomInfo(rom_path)\<close>: the object, or the exception that leaves
  \<open>__init__\<close>.
\<close>

definition N64RomInfo ::
  "(byte list \<Rightarrow> pystr) \<Rightarrow> py_exception option \<Rightarrow> fs_entry \<Rightarrow> py_exception + rom_info" where
  "N64RomInfo md5hex print_fault entry = parse md5hex print_fault entry init_info"

section \<open>Byte-order transforms: loops and recursion agree\<close>

lemma word_swap_short: "length xs < 4 \<Longrightarrow> word_swap xs = xs"
  by (induction xs rule: word_swap.induct) simp_all

lemma halfword_swap_short: "length xs < 2 \<Longrightarrow> halfword_swap xs = xs"
  by (induction xs rule: halfword_swap.induct) simp_all

lemma length_word_swap [simp]: "length (word_swap xs) = length xs"
  by (induction xs rule: word_swap.induct) simp_all

lemma length_halfword_swap [simp]: "length (halfword_swap xs) = length xs"
  by (induction xs rule: halfword_swap.induct) simp_all

lemma word_swap_involution: "word_swap (word_swap xs) = xs"
  by (induction xs rule: word_swap.induct) simp_all

lemma halfword_swap_involution: "halfword_swap (halfword_swap xs) = xs"
  by (induction xs rule: halfword_swap.induct) simp_all

lemma drop_four:
  assumes "i + 4 \<le> length xs"
  shows "drop i xs = xs ! i # xs ! (i + 1) # xs ! (i + 2) # xs ! (i + 3) # drop (i + 4) xs"
proof -
  have "drop i xs = xs ! i # drop (Suc i) xs"
    using assms by (simp add: Cons_nth_drop_Suc)
  also have "drop (Suc i) xs = xs ! (i + 1) # drop (Suc (Suc i)) xs"
    using assms by (simp add: Cons_nth_drop_Suc)
  also have "drop (Suc (Suc i)) xs = xs ! (i + 2) # drop (Suc (Suc (Suc i))) xs"
    using assms by (simp add: Cons_nth_drop_Suc)
  also have "drop (Suc (Suc (Suc i))) xs = xs ! (i + 3) # drop (i + 4) xs"
    using assms Cons_nth_drop_Suc [of "i + 3" xs] by (simp add: numeral_eq_Suc)
  finally show ?thesis .
qed

lemma drop_two:
  assumes "i + 2 \<le> length xs"
  shows "drop i xs = xs ! i # xs ! (i + 1) # drop (i + 2) xs"
proof -
  have "drop i xs = xs ! i # drop (Suc i) xs"
    using assms by (simp add: Cons_nth_drop_Suc)
  also have "drop (Suc i) xs = xs ! (i + 1) # drop (i + 2) xs"
    using assms Cons_nth_drop_Suc [of "i + 1" xs] by simp
  finally show ?thesis .
qed

lemma take_four_update:
  assumes "i + 4 \<le> length r"
  shows "take (i + 4) (r[i := a, i + 1 := b, i + 2 := c, i + 3 := d]) = take i r @ [a, b, c, d]"
  using assms by (simp add: numeral_eq_Suc take_Suc_conv_app_nth)

lemma take_two_update:
  assumes "i + 2 \<le> length r"
  shows "take (i + 2) (r[i := a, i + 1 := b]) = take i r @ [a, b]"
  using assms by (simp add: numeral_eq_Suc take_Suc_conv_app_nth)

lemma swap_n64_loop_eq:
  "length result = length data \<Longrightarrow> i \<le> length data \<Longrightarrow>
   swap_n64_loop data i result = take i result @ word_swap (drop i data)"
proof (induction data i result rule: swap_n64_loop.induct)
  case (1 data i result)
  show ?case
  proof (cases "length data \<le> i")
    case True
    with "1.prems" show ?thesis by (subst swap_n64_loop.simps) simp
  next
    case False
    show ?thesis
    proof (cases "i + 4 \<le> length data")
      case True
      let ?r = "result[i := data ! (i + 3), i + 1 := data ! (i + 2),
                       i + 2 := data ! (i + 1), i + 3 := data ! i]"
      have "swap_n64_loop data i result = swap_n64_loop data (i + 4) ?r"
        using False True by (subst swap_n64_loop.simps) simp
      also have "\<dots> = take (i + 4) ?r @ word_swap (drop (i + 4) data)"
        using "1.IH"(1) [OF False True] "1.prems" True by simp
      also have "take (i + 4) ?r = take i result @ [data ! (i + 3), data ! (i + 2), data ! (i + 1), data ! i]"
        using True "1.prems" by (intro take_four_update) simp
      finally show ?thesis
        by (simp add: drop_four [OF True])
    next
      case short: False
      let ?r = "take i result @ drop i data"
      have "swap_n64_loop data i result = swap_n64_loop data (i + 4) ?r"
        using False short by (subst swap_n64_loop.simps) simp
      also have "\<dots> = ?r"
        using short by (subst swap_n64_loop.simps) simp
      also have "drop i data = word_swap (drop i data)"
        using short by (simp add: word_swap_short)
      finally show ?thesis .
    qed
  qed
qed

lemma swap_v64_loop_eq:
  "length result = length data \<Longrightarrow> i \<le> length data \<Longrightarrow>
   swap_v64_loop data i result = take i result @ halfword_swap (drop i data)"
proof (induction data i result rule: swap_v64_loop.induct)
  case (1 data i result)
  show ?case
  proof (cases "length data \<le> i")
    case True
    with "1.prems" show ?thesis by (subst swap_v64_loop.simps) simp
  next
    case False
    show ?thesis
    proof (cases "i + 2 \<le> length data")
      case True
      let ?r = "result[i := data ! (i + 1), i + 1 := data ! i]"
      have "swap_v64_loop data i result = swap_v64_loop data (i + 2) ?r"
        using False True by (subst swap_v64_loop.simps) simp
      also have "\<dots> = take (i + 2) ?r @ halfword_swap (drop (i + 2) data)"
        using "1.IH"(1) [OF False True] "1.prems" True by simp
      also have "take (i + 2) ?r = take i result @ [data ! (i + 1), data ! i]"
        using True "1.prems" by (intro take_two_update) simp
      finally show ?thesis
        by (simp add: drop_two [OF True])
    next
      case short: False
      let ?r = "take i result @ drop i data"
      have "swap_v64_loop data i result = swap_v64_loop data (i + 2) ?r"
        using False short by (subst swap_v64_loop.simps) simp
      also have "\<dots> = ?r"
        using short by (subst swap_v64_loop.simps) simp
      also have "drop i data = halfword_swap (drop i data)"
        using short by (simp add: halfword_swap_short)
      finally show ?thesis .
    qed
  qed
qed

lemma swap_bytes_n64_eq: "swap_bytes_n64 data = word_swap data"
  by (simp add: swap_bytes_n64_def swap_n64_loop_eq)

lemma swap_bytes_v64_eq: "swap_bytes_v64 data = halfword_swap data"
  by (simp add: swap_bytes_v64_def swap_v64_loop_eq)

section \<open>Claims about the byte-order transforms and format detection\<close>

text \<open>
  C7. Both byte-reordering transforms are involutions: on every buffer whose length is a
  multiple of 4, applying \<open>swap_bytes_n64\<close> twice gives the buffer back, and on every buffer
  whose length is a multiple of 2, applying \<open>swap_bytes_v64\<close> twice gives the buffer back.
\<close>

theorem swap_bytes_involutions:
  "(length b mod 4 = 0 \<longrightarrow> swap_bytes_n64 (swap_bytes_n64 b) = b) \<and>
   (length b mod 2 = 0 \<longrightarrow> swap_bytes_v64 (swap_bytes_v64 b) = b)"
  by (simp add: swap_bytes_n64_eq swap_bytes_v64_eq word_swap_involution
      halfword_swap_involution)

theorem swap_bytes_involutions_witness:
  "length [1, 2, 3, 4 :: byte] mod 4 = 0 \<and> length [1, 2, 3, 4 :: byte] mod 2 = 0 \<and>
   swap_bytes_n64 [1, 2, 3, 4] = [4, 3, 2, 1] \<and>
   swap_bytes_n64 (swap_bytes_n64 [1, 2, 3, 4]) = [1, 2, 3, 4] \<and>
   swap_bytes_v64 [1, 2, 3, 4] = [2, 1, 4, 3] \<and>
   swap_bytes_v64 (swap_bytes_v64 [1, 2, 3, 4]) = [1, 2, 3, 4]"
  using swap_bytes_involutions [of "[1, 2, 3, 4]"]
  by (simp add: swap_bytes_n64_def swap_bytes_v64_def swap_n64_loop.simps swap_v64_loop.simps)

text \<open>
  C9 (as amended). For every input of fewer than 4 bytes \<open>detect_rom_format\<close> returns no
  format value at all (Python's \<open>None\<close>, which is not the format value "unknown" that an
  unrecognised input of four or more bytes gets) together with no transform.
\<close>

theorem detect_rom_format_short:
  "length bs < 4 \<Longrightarrow>
   detect_rom_format bs = (None, None) \<and> fst (detect_rom_format bs) \<noteq> Some (str ''unknown'')"
  by (simp add: detect_rom_format_def)

theorem detect_rom_format_short_witness:
  "length [0x80, 0x37, 0x12 :: byte] < 4 \<and> detect_rom_format [0x80, 0x37, 0x12] = (None, None)"
  using detect_rom_format_short [of "[0x80, 0x37, 0x12]"] by simp

text \<open>
  C9 as stated fails: on the empty input the format returned is not the value "unknown",
  which is what four unrecognised bytes get.
\<close>

theorem detect_rom_format_short_counterexample:
  "length ([] :: byte list) < 4 \<and>
   detect_rom_format [] \<noteq> (Some (str ''unknown''), None) \<and>
   detect_rom_format [0, 0, 0, 0] = (Some (str ''unknown''), None)"
  by (simp add: detect_rom_format_def)

section \<open>Region and CIC classification\<close>

lemma hex_upper_small: "n < 16 \<Longrightarrow> hex_upper n = [hex_digit_upper n]"
  by (subst hex_upper.simps) simp

lemma hex_upper_two: "16 \<le> n \<Longrightarrow> n < 256 \<Longrightarrow> hex_upper n = [hex_digit_upper (n div 16), hex_digit_upper (n mod 16)]"
  by (subst hex_upper.simps) (simp add: hex_upper_small less_mult_imp_div_less)

lemma format_02X_byte:
  assumes "0 \<le> c" "c \<le> 255"
  shows "format_02X c = [hex_digit_upper (nat c div 16), hex_digit_upper (nat c mod 16)]"
proof (cases "nat c < 16")
  case True
  then show ?thesis using assms
    by (simp add: format_02X_def hex_upper_small hex_digit_upper_def)
next
  case False
  then have "hex_upper (nat c) = [hex_digit_upper (nat c div 16), hex_digit_upper (nat c mod 16)]"
    using assms by (intro hex_upper_two) auto
  then show ?thesis using assms by (simp add: format_02X_def)
qed

lemma mask32: "(x::int) AND 0xFFFFFFFF = x mod 2 ^ 32"
proof -
  have "(0xFFFFFFFF :: int) = mask 32" by (simp add: mask_eq_exp_minus_1)
  then show ?thesis by (simp only: flip: take_bit_eq_mask take_bit_eq_mod)
qed

lemma sum_bytes_bounds: "0 \<le> sum_list (map uint (bs :: byte list)) \<and> sum_list (map uint bs) \<le> 255 * int (length bs)"
proof (induction bs)
  case Nil
  show ?case by simp
next
  case (Cons b bs)
  have "uint b \<le> 255" using uint_bounded [of b] by simp
  moreover have "0 \<le> uint b" by simp
  ultimately show ?case using Cons by simp
qed

lemma cic_checksum_bounds: "0 \<le> cic_checksum bs \<and> cic_checksum bs \<le> 1028160"
proof -
  let ?s = "sum_list (map uint (take 4032 bs))"
  have "0 \<le> ?s" "?s \<le> 255 * int (length (take 4032 bs))"
    using sum_bytes_bounds [of "take 4032 bs"] by auto
  then have b: "0 \<le> ?s" "?s \<le> 1028160" by auto
  then have "?s mod 2 ^ 32 = ?s" by simp
  then show ?thesis using b by (simp add: cic_checksum_def mask32)
qed

lemma cic_table_never_matches: "cic_table_match CIC_CHIPS (cic_checksum bs) = None"
  using cic_checksum_bounds [of bs] by (simp add: CIC_CHIPS_def)


lemma cic_table_match_Some_iff:
  "(\<exists>name. cic_table_match tbl cs = Some name) \<longleftrightarrow>
   (\<exists>(c, info) \<in> set tbl. c > 0xFFFF \<and> \<bar>cs - c\<bar> < 0x10000)"
  by (induction tbl cs rule: cic_table_match.induct) auto

lemma cic_table_match_filter:
  "cic_table_match (filter (\<lambda>(c, info). c > 0xFFFF) tbl) cs = cic_table_match tbl cs"
  by (induction tbl cs rule: cic_table_match.induct) auto

lemma cic_chip_detect_cic:
  "cic_chip (detect_cic bootcode s) =
     (if length bootcode < 4032 then str ''Unknown''
      else case cic_table_match CIC_CHIPS (cic_checksum bootcode) of
             Some name \<Rightarrow> name
           | None \<Rightarrow> cic_entry_fallback (entry_point s))"
  by (simp add: detect_cic_def split: option.splits)

lemma cic_table_match_find:
  "cic_table_match tbl cs =
     map_option (\<lambda>(c, info). cic_name info)
       (find (\<lambda>(c, info). c > 0xFFFF \<and> \<bar>cs - c\<bar> < 0x10000) tbl)"
  by (induction tbl cs rule: cic_table_match.induct) auto

lemma detect_cic_find:
  assumes "4032 \<le> length bootcode"
  shows "detect_cic bootcode s =
     s\<lparr>cic_chip :=
         (case find (\<lambda>(c, info). c > 0xFFFF \<and> \<bar>cic_checksum bootcode - c\<bar> < 0x10000) CIC_CHIPS of
            Some (c, info) \<Rightarrow> cic_name info
          | None \<Rightarrow> cic_entry_fallback (entry_point s))\<rparr>"
  using assms
  by (simp add: detect_cic_def cic_table_match_find split: option.splits prod.splits)

lemma no_constant_in_reach:
  "\<not> (\<exists>(c, info) \<in> set CIC_CHIPS. c > 0xFFFF \<and> \<bar>cic_checksum bootcode - c\<bar> < 0x10000)"
  using cic_table_never_matches [of bootcode] cic_table_match_Some_iff [of CIC_CHIPS "cic_checksum bootcode"]
  by simp

lemma fallback_is_no_table_name:
  "cic_entry_fallback entry \<notin> (\<lambda>(c, info). cic_name info) ` {(c, info) \<in> set CIC_CHIPS. c > 0xFFFF}"
  by (auto simp: cic_entry_fallback_def CIC_CHIPS_def str_def)

lemma detect_cic_table_name_iff:
  assumes "4032 \<le> length bootcode"
  shows "cic_chip (detect_cic bootcode s) \<in>
           (\<lambda>(c, info). cic_name info) ` {(c, info) \<in> set CIC_CHIPS. c > 0xFFFF} \<longleftrightarrow>
         (\<exists>(c, info) \<in> set CIC_CHIPS. c > 0xFFFF \<and> \<bar>cic_checksum bootcode - c\<bar> < 0x10000)"
proof -
  have "cic_chip (detect_cic bootcode s) = cic_entry_fallback (entry_point s)"
    using assms by (simp add: cic_chip_detect_cic cic_table_never_matches)
  then show ?thesis
    using fallback_is_no_table_name [of "entry_point s"] no_constant_in_reach [of bootcode]
    by simp
qed

text \<open>
  C2. Boot code shorter than 4032 bytes classifies as "Unknown". For boot code of at least
  4032 bytes the checksum is the sum of the first 4032 bytes modulo \<open>2^32\<close>, and the
  classification is the name of the first table entry whose constant exceeds 0xFFFF and
  differs from the checksum by less than 0x10000, or else what the entry point gives: so
  the chip is the name of such a table entry exactly when such an entry exists. The scan
  of the table is that search for every checksum value. The entries that do not exceed
  0xFFFF, which the search skips, are the five short identifiers 0x3F, 0x3F01, 0x783F,
  0x913F and 0x853F.
\<close>

theorem detect_cic_table_match:
  "(length bootcode < 4032 \<longrightarrow> detect_cic bootcode s = s\<lparr>cic_chip := str ''Unknown''\<rparr>) \<and>
   (4032 \<le> length bootcode \<longrightarrow>
      cic_checksum bootcode = sum_list (map uint (take 4032 bootcode)) mod 2 ^ 32 \<and>
      detect_cic bootcode s =
        s\<lparr>cic_chip :=
            (case find (\<lambda>(c, info). c > 0xFFFF \<and> \<bar>cic_checksum bootcode - c\<bar> < 0x10000)
                    CIC_CHIPS of
               Some (c, info) \<Rightarrow> cic_name info
             | None \<Rightarrow> cic_entry_fallback (entry_point s))\<rparr> \<and>
      (cic_chip (detect_cic bootcode s) \<in>
           (\<lambda>(c, info). cic_name info) ` {(c, info) \<in> set CIC_CHIPS. c > 0xFFFF} \<longleftrightarrow>
       (\<exists>(c, info) \<in> set CIC_CHIPS. c > 0xFFFF \<and> \<bar>cic_checksum bootcode - c\<bar> < 0x10000))) \<and>
   cic_table_match CIC_CHIPS cs =
     map_option (\<lambda>(c, info). cic_name info)
       (find (\<lambda>(c, info). c > 0xFFFF \<and> \<bar>cs - c\<bar> < 0x10000) CIC_CHIPS) \<and>
   map fst (filter (\<lambda>(c, info). \<not> c > 0xFFFF) CIC_CHIPS) = [0x3F, 0x3F01, 0x783F, 0x913F, 0x853F]"
proof (intro conjI impI)
  assume "length bootcode < 4032"
  then show "detect_cic bootcode s = s\<lparr>cic_chip := str ''Unknown''\<rparr>"
    by (simp add: detect_cic_def)
next
  show "cic_checksum bootcode = sum_list (map uint (take 4032 bootcode)) mod 2 ^ 32"
    by (simp add: cic_checksum_def mask32)
next
  assume "4032 \<le> length bootcode"
  then show "detect_cic bootcode s =
        s\<lparr>cic_chip :=
            (case find (\<lambda>(c, info). c > 0xFFFF \<and> \<bar>cic_checksum bootcode - c\<bar> < 0x10000)
                    CIC_CHIPS of
               Some (c, info) \<Rightarrow> cic_name info
             | None \<Rightarrow> cic_entry_fallback (entry_point s))\<rparr>"
    by (rule detect_cic_find)
next
  assume "4032 \<le> length bootcode"
  then show "cic_chip (detect_cic bootcode s) \<in>
           (\<lambda>(c, info). cic_name info) ` {(c, info) \<in> set CIC_CHIPS. c > 0xFFFF} \<longleftrightarrow>
       (\<exists>(c, info) \<in> set CIC_CHIPS. c > 0xFFFF \<and> \<bar>cic_checksum bootcode - c\<bar> < 0x10000)"
    by (rule detect_cic_table_name_iff)
next
  show "cic_table_match CIC_CHIPS cs =
     map_option (\<lambda>(c, info). cic_name info)
       (find (\<lambda>(c, info). c > 0xFFFF \<and> \<bar>cs - c\<bar> < 0x10000) CIC_CHIPS)"
    by (rule cic_table_match_find)
next
  show "map fst (filter (\<lambda>(c, info). \<not> c > 0xFFFF) CIC_CHIPS) = [0x3F, 0x3F01, 0x783F, 0x913F, 0x853F]"
    by (simp add: CIC_CHIPS_def)
qed

theorem detect_cic_table_match_witness:
  "length ([] :: byte list) < 4032 \<and>
   detect_cic [] init_info = init_info\<lparr>cic_chip := str ''Unknown''\<rparr> \<and>
   4032 \<le> length (replicate 4032 (0 :: byte)) \<and>
   cic_checksum (replicate 4032 0) = 0 \<and>
   \<bar>0 - 0x3F\<bar> < (0x10000 :: int) \<and>
   detect_cic (replicate 4032 0) (init_info\<lparr>entry_point := 0x80000480\<rparr>) =
     init_info\<lparr>entry_point := 0x80000480, cic_chip := str ''CIC-6103''\<rparr> \<and>
   4032 \<le> length (replicate 5000 (255 :: byte)) \<and>
   cic_checksum (replicate 5000 255) = 1028160 \<and>
   detect_cic (replicate 5000 255) init_info = init_info\<lparr>cic_chip := str ''CIC-6102''\<rparr>"
proof -
  note t1 = detect_cic_table_match [of "[]" init_info 0]
  note t2 = detect_cic_table_match [of "replicate 4032 0" "init_info\<lparr>entry_point := 0x80000480\<rparr>" 0]
  note t3 = detect_cic_table_match [of "replicate 5000 255" init_info 0]
  have short: "length ([] :: byte list) < 4032" by simp
  have long0: "4032 \<le> length (replicate 4032 (0 :: byte))" by simp
  have long1: "4032 \<le> length (replicate 5000 (255 :: byte))" by simp
  from t1 short have a: "detect_cic [] init_info = init_info\<lparr>cic_chip := str ''Unknown''\<rparr>"
    by blast
  from t2 long0 have "cic_checksum (replicate 4032 0)
      = sum_list (map uint (take 4032 (replicate 4032 (0 :: byte)))) mod 2 ^ 32"
    by blast
  then have c0: "cic_checksum (replicate 4032 0) = 0"
    by (simp add: sum_list_replicate)
  from t3 long1 have "cic_checksum (replicate 5000 255)
      = sum_list (map uint (take 4032 (replicate 5000 (255 :: byte)))) mod 2 ^ 32"
    by blast
  then have c1: "cic_checksum (replicate 5000 255) = 1028160"
    by (simp add: sum_list_replicate)
  from t2 long0 have "detect_cic (replicate 4032 0) (init_info\<lparr>entry_point := 0x80000480\<rparr>) =
        (init_info\<lparr>entry_point := 0x80000480\<rparr>)\<lparr>cic_chip :=
            (case find (\<lambda>(c, info). c > 0xFFFF \<and> \<bar>cic_checksum (replicate 4032 0) - c\<bar> < 0x10000)
                    CIC_CHIPS of
               Some (c, info) \<Rightarrow> cic_name info
             | None \<Rightarrow> cic_entry_fallback (entry_point (init_info\<lparr>entry_point := 0x80000480\<rparr>)))\<rparr>"
    by blast
  then have d0: "detect_cic (replicate 4032 0) (init_info\<lparr>entry_point := 0x80000480\<rparr>) =
     init_info\<lparr>entry_point := 0x80000480, cic_chip := str ''CIC-6103''\<rparr>"
    by (simp add: c0 CIC_CHIPS_def cic_entry_fallback_def)
  from t3 long1 have "detect_cic (replicate 5000 255) init_info =
        init_info\<lparr>cic_chip :=
            (case find (\<lambda>(c, info). c > 0xFFFF \<and> \<bar>cic_checksum (replicate 5000 255) - c\<bar> < 0x10000)
                    CIC_CHIPS of
               Some (c, info) \<Rightarrow> cic_name info
             | None \<Rightarrow> cic_entry_fallback (entry_point init_info))\<rparr>"
    by blast
  then have d1: "detect_cic (replicate 5000 255) init_info = init_info\<lparr>cic_chip := str ''CIC-6102''\<rparr>"
    by (simp add: c1 CIC_CHIPS_def cic_entry_fallback_def init_info_def)
  have n: "\<bar>0 - 0x3F\<bar> < (0x10000 :: int)" by simp
  show ?thesis
    by (intro conjI) (rule short a long0 c0 n d0 long1 c1 d1)+
qed

text \<open>
  C3. When the checksum of the boot code (of at least 4032 bytes, so that a checksum is
  computed) matches no table entry, the CIC chip follows from the entry point: 0x80000400
  gives CIC-6101, 0x80000480 gives CIC-6103, 0x800004C0 gives CIC-6106 and every other
  value gives CIC-6102.
\<close>

theorem detect_cic_entry_point_fallback:
  assumes "4032 \<le> length bootcode"
    and "cic_table_match CIC_CHIPS (cic_checksum bootcode) = None"
  shows "(entry_point s = 0x80000400 \<longrightarrow> cic_chip (detect_cic bootcode s) = str ''CIC-6101'') \<and>
         (entry_point s = 0x80000480 \<longrightarrow> cic_chip (detect_cic bootcode s) = str ''CIC-6103'') \<and>
         (entry_point s = 0x800004C0 \<longrightarrow> cic_chip (detect_cic bootcode s) = str ''CIC-6106'') \<and>
         (entry_point s \<notin> {0x80000400, 0x80000480, 0x800004C0} \<longrightarrow>
            cic_chip (detect_cic bootcode s) = str ''CIC-6102'')"
  using assms by (simp add: cic_chip_detect_cic cic_entry_fallback_def)

lemma zero_bootcode: "4032 \<le> length (replicate 4032 (0 :: byte)) \<and>
  cic_table_match CIC_CHIPS (cic_checksum (replicate 4032 0)) = None"
  by (simp add: cic_table_never_matches)

theorem detect_cic_entry_point_fallback_witness:
  "4032 \<le> length (replicate 4032 (0 :: byte)) \<and>
   cic_table_match CIC_CHIPS (cic_checksum (replicate 4032 0)) = None \<and>
   cic_chip (detect_cic (replicate 4032 0) (init_info\<lparr>entry_point := 0x80000400\<rparr>)) = str ''CIC-6101'' \<and>
   cic_chip (detect_cic (replicate 4032 0) (init_info\<lparr>entry_point := 0x80000480\<rparr>)) = str ''CIC-6103'' \<and>
   cic_chip (detect_cic (replicate 4032 0) (init_info\<lparr>entry_point := 0x800004C0\<rparr>)) = str ''CIC-6106'' \<and>
   cic_chip (detect_cic (replicate 4032 0) (init_info\<lparr>entry_point := 0x80246000\<rparr>)) = str ''CIC-6102''"
proof -
  note z = zero_bootcode
  note t = detect_cic_entry_point_fallback [OF conjunct1 [OF z] conjunct2 [OF z]]
  show ?thesis
    using z t [of "init_info\<lparr>entry_point := 0x80000400\<rparr>"]
      t [of "init_info\<lparr>entry_point := 0x80000480\<rparr>"]
      t [of "init_info\<lparr>entry_point := 0x800004C0\<rparr>"]
      t [of "init_info\<lparr>entry_point := 0x80246000\<rparr>"]
    by simp
qed

text \<open>
  C4 as stated fails: with unmatched boot code and the entry point 0x80000400, which is
  not 0x80000480, the chip is CIC-6101 and not CIC-6102.
\<close>

theorem detect_cic_other_entry_point_counterexample:
  "4032 \<le> length (replicate 4032 (0 :: byte)) \<and>
   cic_table_match CIC_CHIPS (cic_checksum (replicate 4032 0)) = None \<and>
   (0x80000400 :: int) \<noteq> 0x80000480 \<and>
   cic_chip (detect_cic (replicate 4032 0) (init_info\<lparr>entry_point := 0x80000400\<rparr>)) = str ''CIC-6101'' \<and>
   cic_chip (detect_cic (replicate 4032 0) (init_info\<lparr>entry_point := 0x80000400\<rparr>)) \<noteq> str ''CIC-6102''"
  by (simp add: cic_chip_detect_cic cic_table_never_matches cic_entry_fallback_def str_def)

text \<open>
  C4 (as amended). For every boot-code buffer of at least 4032 bytes whose checksum
  matches none of the known constants: with the entry point 0x80000480 the ROM classifies
  as CIC-6103, and with every entry point other than 0x80000400, 0x80000480 and 0x800004C0
  it classifies as CIC-6102.
\<close>

theorem detect_cic_6103_or_6102:
  assumes "4032 \<le> length bootcode"
    and "cic_table_match CIC_CHIPS (cic_checksum bootcode) = None"
  shows "(entry_point s = 0x80000480 \<longrightarrow> cic_chip (detect_cic bootcode s) = str ''CIC-6103'') \<and>
         (entry_point s \<noteq> 0x80000480 \<and> entry_point s \<noteq> 0x80000400 \<and> entry_point s \<noteq> 0x800004C0 \<longrightarrow>
            cic_chip (detect_cic bootcode s) = str ''CIC-6102'')"
  using assms by (simp add: cic_chip_detect_cic cic_entry_fallback_def)

theorem detect_cic_6103_or_6102_witness:
  "4032 \<le> length (replicate 4032 (0 :: byte)) \<and>
   cic_table_match CIC_CHIPS (cic_checksum (replicate 4032 0)) = None \<and>
   cic_chip (detect_cic (replicate 4032 0) (init_info\<lparr>entry_point := 0x80000480\<rparr>)) = str ''CIC-6103'' \<and>
   cic_chip (detect_cic (replicate 4032 0) (init_info\<lparr>entry_point := 0x80001000\<rparr>)) = str ''CIC-6102''"
proof -
  note z = zero_bootcode
  note t = detect_cic_6103_or_6102 [OF conjunct1 [OF z] conjunct2 [OF z]]
  show ?thesis
    using z t [of "init_info\<lparr>entry_point := 0x80000480\<rparr>"]
      t [of "init_info\<lparr>entry_point := 0x80001000\<rparr>"]
    by simp
qed

lemma country_codes_distinct: "distinct (map fst N64_COUNTRY_CODES)"
  by (simp add: N64_COUNTRY_CODES_def)

text \<open>
  C6. For every country-code byte value 0x00 to 0xFF region classification yields a
  result: the keys of the country table are distinct, a code in the table gets the fields
  of its entry, and a code not in the table gets the video standard NTSC, 60 Hz, the
  country "Unknown" and the region "0x" followed by the two upper-case hexadecimal digits
  of the code.
\<close>

theorem parse_country_total:
  assumes "0 \<le> c" and "c \<le> 255"
  shows "distinct (map fst N64_COUNTRY_CODES) \<and>
    (\<forall>info. (c, info) \<in> set N64_COUNTRY_CODES \<longrightarrow>
       parse_country (s\<lparr>country_code := c\<rparr>) =
         s\<lparr>country_code := c, region := ri_region info, country := ri_country info,
           video_mode := ri_video info, refresh_hz := ri_hz info, flag := ri_flag info\<rparr>) \<and>
    (c \<notin> fst ` set N64_COUNTRY_CODES \<longrightarrow>
       parse_country (s\<lparr>country_code := c\<rparr>) =
         s\<lparr>country_code := c,
           region := str ''0x'' @ [hex_digit_upper (nat c div 16), hex_digit_upper (nat c mod 16)],
           country := str ''Unknown'', video_mode := str ''NTSC'', refresh_hz := 60,
           flag := [0x2753]\<rparr>)"
proof (intro conjI allI impI)
  show "distinct (map fst N64_COUNTRY_CODES)" by (rule country_codes_distinct)
next
  fix info
  assume "(c, info) \<in> set N64_COUNTRY_CODES"
  then have "map_of N64_COUNTRY_CODES c = Some info"
    using country_codes_distinct by (simp add: map_of_eq_Some_iff)
  then show "parse_country (s\<lparr>country_code := c\<rparr>) =
         s\<lparr>country_code := c, region := ri_region info, country := ri_country info,
           video_mode := ri_video info, refresh_hz := ri_hz info, flag := ri_flag info\<rparr>"
    by (simp add: parse_country_def)
next
  assume "c \<notin> fst ` set N64_COUNTRY_CODES"
  then have "map_of N64_COUNTRY_CODES c = None"
    by (simp add: map_of_eq_None_iff)
  then show "parse_country (s\<lparr>country_code := c\<rparr>) =
         s\<lparr>country_code := c,
           region := str ''0x'' @ [hex_digit_upper (nat c div 16), hex_digit_upper (nat c mod 16)],
           country := str ''Unknown'', video_mode := str ''NTSC'', refresh_hz := 60,
           flag := [0x2753]\<rparr>"
    using assms by (simp add: parse_country_def format_02X_byte)
qed

theorem parse_country_total_witness:
  "(0 :: int) \<le> 0x7F \<and> (0x7F :: int) \<le> 255 \<and> (0x7F :: int) \<notin> fst ` set N64_COUNTRY_CODES \<and>
   region (parse_country (init_info\<lparr>country_code := 0x7F\<rparr>)) = str ''0x7F'' \<and>
   country (parse_country (init_info\<lparr>country_code := 0x7F\<rparr>)) = str ''Unknown'' \<and>
   video_mode (parse_country (init_info\<lparr>country_code := 0x7F\<rparr>)) = str ''NTSC'' \<and>
   refresh_hz (parse_country (init_info\<lparr>country_code := 0x7F\<rparr>)) = 60 \<and>
   (0x45, \<lparr>ri_region = str ''NTSC-U'', ri_country = str ''USA'', ri_video = str ''NTSC'',
           ri_hz = 60, ri_flag = [0x1F1FA, 0x1F1F8]\<rparr>) \<in> set N64_COUNTRY_CODES \<and>
   region (parse_country (init_info\<lparr>country_code := 0x45\<rparr>)) = str ''NTSC-U''"
proof -
  have r: "(0 :: int) \<le> 0x7F" "(0x7F :: int) \<le> 255" "(0 :: int) \<le> 0x45" "(0x45 :: int) \<le> 255"
    by simp_all
  have out: "(0x7F :: int) \<notin> fst ` set N64_COUNTRY_CODES"
    by (simp add: N64_COUNTRY_CODES_def)
  have usa: "(0x45, \<lparr>ri_region = str ''NTSC-U'', ri_country = str ''USA'', ri_video = str ''NTSC'',
           ri_hz = 60, ri_flag = [0x1F1FA, 0x1F1F8]\<rparr>) \<in> set N64_COUNTRY_CODES"
    by (simp add: N64_COUNTRY_CODES_def)
  note t1 = parse_country_total [OF r(1) r(2), of init_info]
  note t2 = parse_country_total [OF r(3) r(4), of init_info]
  from t1 out have e1: "parse_country (init_info\<lparr>country_code := 0x7F\<rparr>) =
         init_info\<lparr>country_code := 0x7F,
           region := str ''0x'' @ [hex_digit_upper (nat 0x7F div 16), hex_digit_upper (nat 0x7F mod 16)],
           country := str ''Unknown'', video_mode := str ''NTSC'', refresh_hz := 60,
           flag := [0x2753]\<rparr>"
    by blast
  from t2 usa have e2: "parse_country (init_info\<lparr>country_code := 0x45\<rparr>) =
         init_info\<lparr>country_code := 0x45, region := str ''NTSC-U'', country := str ''USA'',
           video_mode := str ''NTSC'', refresh_hz := 60, flag := [0x1F1FA, 0x1F1F8]\<rparr>"
    by fastforce
  show ?thesis
    using r out usa by (simp add: e1 e2 str_def hex_digit_upper_def)
qed


section \<open>Save-type classification\<close>

lemma save_type_match_find:
  "save_type_match tbl gc cid =
     map_option (\<lambda>(k, codes). replace_underscore k)
       (find (\<lambda>(k, codes). gc \<in> set codes \<or> cid \<in> set codes) tbl)"
  by (induction tbl gc cid rule: save_type_match.induct) auto

lemma save_type_keys:
  "map fst SAVE_TYPES =
     [str ''EEPROM_4K'', str ''EEPROM_16K'', str ''SRAM_256K'', str ''FLASH_1M'', str ''CPAK'']"
  by (simp add: SAVE_TYPES_def)

text \<open>
  C5. The buckets are scanned in the order EEPROM_4K, EEPROM_16K, SRAM_256K, FLASH_1M, CPAK.
  A bucket matches when the game code (manufacturer followed by cartridge id) or the
  cartridge id alone is in its code list, and the first matching bucket gives the save
  type. When no bucket matches, the size in megabits decides: at least 256 gives FlashRAM,
  at least 64 gives SRAM, anything smaller gives EEPROM.
\<close>

theorem detect_save_type_first_bucket:
  "map fst SAVE_TYPES =
     [str ''EEPROM_4K'', str ''EEPROM_16K'', str ''SRAM_256K'', str ''FLASH_1M'', str ''CPAK''] \<and>
   (\<forall>i < length SAVE_TYPES.
      (manufacturer s @ cartridge_id s \<in> set (snd (SAVE_TYPES ! i)) \<or>
       cartridge_id s \<in> set (snd (SAVE_TYPES ! i))) \<and>
      (\<forall>j < i. manufacturer s @ cartridge_id s \<notin> set (snd (SAVE_TYPES ! j)) \<and>
                cartridge_id s \<notin> set (snd (SAVE_TYPES ! j))) \<longrightarrow>
      detect_save_type s = s\<lparr>save_type := replace_underscore (fst (SAVE_TYPES ! i))\<rparr>) \<and>
   ((\<forall>i < length SAVE_TYPES.
       manufacturer s @ cartridge_id s \<notin> set (snd (SAVE_TYPES ! i)) \<and>
       cartridge_id s \<notin> set (snd (SAVE_TYPES ! i))) \<longrightarrow>
    detect_save_type s =
      s\<lparr>save_type := (if size_mbits s \<ge> 256 then str ''FlashRAM''
                      else if size_mbits s \<ge> 64 then str ''SRAM''
                      else str ''EEPROM'')\<rparr>)"
proof (intro conjI allI impI)
  show "map fst SAVE_TYPES =
     [str ''EEPROM_4K'', str ''EEPROM_16K'', str ''SRAM_256K'', str ''FLASH_1M'', str ''CPAK'']"
    by (rule save_type_keys)
next
  let ?gc = "manufacturer s @ cartridge_id s"
  let ?P = "\<lambda>(k :: pystr, codes). ?gc \<in> set codes \<or> cartridge_id s \<in> set codes"
  fix i
  assume i: "i < length SAVE_TYPES"
    and m: "(?gc \<in> set (snd (SAVE_TYPES ! i)) \<or> cartridge_id s \<in> set (snd (SAVE_TYPES ! i))) \<and>
      (\<forall>j < i. ?gc \<notin> set (snd (SAVE_TYPES ! j)) \<and> cartridge_id s \<notin> set (snd (SAVE_TYPES ! j)))"
  have "find ?P SAVE_TYPES = Some (SAVE_TYPES ! i)"
    unfolding find_Some_iff
    using i m by (intro exI [of _ i]) (auto simp: case_prod_beta)
  then have "save_type_match SAVE_TYPES ?gc (cartridge_id s) =
      Some (replace_underscore (fst (SAVE_TYPES ! i)))"
    by (simp add: save_type_match_find case_prod_beta)
  then show "detect_save_type s = s\<lparr>save_type := replace_underscore (fst (SAVE_TYPES ! i))\<rparr>"
    by (simp add: detect_save_type_def)
next
  let ?gc = "manufacturer s @ cartridge_id s"
  let ?P = "\<lambda>(k :: pystr, codes). ?gc \<in> set codes \<or> cartridge_id s \<in> set codes"
  assume n: "\<forall>i < length SAVE_TYPES.
       ?gc \<notin> set (snd (SAVE_TYPES ! i)) \<and> cartridge_id s \<notin> set (snd (SAVE_TYPES ! i))"
  have "find ?P SAVE_TYPES = None"
    unfolding find_None_iff
    using n by (auto simp: in_set_conv_nth case_prod_beta)
  then have "save_type_match SAVE_TYPES ?gc (cartridge_id s) = None"
    by (simp add: save_type_match_find)
  then show "detect_save_type s =
      s\<lparr>save_type := (if size_mbits s \<ge> 256 then str ''FlashRAM''
                      else if size_mbits s \<ge> 64 then str ''SRAM''
                      else str ''EEPROM'')\<rparr>"
    by (simp add: detect_save_type_def save_type_by_size_def)
qed


theorem detect_save_type_first_bucket_witness:
  "(1 :: nat) < length SAVE_TYPES \<and>
   str ''NZL'' \<in> set (snd (SAVE_TYPES ! 1)) \<and>
   str ''NZL'' \<notin> set (snd (SAVE_TYPES ! 0)) \<and>
   detect_save_type (init_info\<lparr>cartridge_id := str ''ZL''\<rparr>) =
     init_info\<lparr>cartridge_id := str ''ZL'', save_type := str ''EEPROM 16K''\<rparr> \<and>
   detect_save_type (init_info\<lparr>cartridge_id := str ''XX'', size_mbits := 256\<rparr>) =
     init_info\<lparr>cartridge_id := str ''XX'', size_mbits := 256, save_type := str ''FlashRAM''\<rparr> \<and>
   detect_save_type (init_info\<lparr>cartridge_id := str ''XX'', size_mbits := 32\<rparr>) =
     init_info\<lparr>cartridge_id := str ''XX'', size_mbits := 32, save_type := str ''EEPROM''\<rparr>"
proof -
  let ?s1 = "init_info\<lparr>cartridge_id := str ''ZL''\<rparr>"
  let ?s2 = "init_info\<lparr>cartridge_id := str ''XX'', size_mbits := 256\<rparr>"
  let ?s3 = "init_info\<lparr>cartridge_id := str ''XX'', size_mbits := 32\<rparr>"
  have i: "(1 :: nat) < length SAVE_TYPES"
    by (simp add: SAVE_TYPES_def)
  have a: "str ''NZL'' \<in> set (snd (SAVE_TYPES ! 1))" "str ''NZL'' \<notin> set (snd (SAVE_TYPES ! 0))"
    by (simp_all add: SAVE_TYPES_def str_def)
  have gc: "manufacturer ?s1 @ cartridge_id ?s1 = str ''NZL''"
    by (simp add: init_info_def str_def)
  have m: "(manufacturer ?s1 @ cartridge_id ?s1 \<in> set (snd (SAVE_TYPES ! 1)) \<or>
       cartridge_id ?s1 \<in> set (snd (SAVE_TYPES ! 1))) \<and>
      (\<forall>j < 1. manufacturer ?s1 @ cartridge_id ?s1 \<notin> set (snd (SAVE_TYPES ! j)) \<and>
                cartridge_id ?s1 \<notin> set (snd (SAVE_TYPES ! j)))"
    unfolding gc using a by (simp add: SAVE_TYPES_def str_def)
  from detect_save_type_first_bucket [of ?s1] i m
  have "detect_save_type ?s1 = ?s1\<lparr>save_type := replace_underscore (fst (SAVE_TYPES ! 1))\<rparr>"
    by blast
  then have r1: "detect_save_type ?s1 = ?s1\<lparr>save_type := str ''EEPROM 16K''\<rparr>"
    by (simp add: SAVE_TYPES_def replace_underscore_def str_def)
  have none: "\<forall>(k, codes) \<in> set SAVE_TYPES. str ''NXX'' \<notin> set codes \<and> str ''XX'' \<notin> set codes"
    by (simp add: SAVE_TYPES_def str_def)
  have n2: "\<forall>i < length SAVE_TYPES.
       manufacturer ?s2 @ cartridge_id ?s2 \<notin> set (snd (SAVE_TYPES ! i)) \<and>
       cartridge_id ?s2 \<notin> set (snd (SAVE_TYPES ! i))"
  proof (intro allI impI)
    fix i assume "i < length SAVE_TYPES"
    then have "SAVE_TYPES ! i \<in> set SAVE_TYPES" by (rule nth_mem)
    with none have "str ''NXX'' \<notin> set (snd (SAVE_TYPES ! i)) \<and> str ''XX'' \<notin> set (snd (SAVE_TYPES ! i))"
      by (auto simp: case_prod_beta)
    then show "manufacturer ?s2 @ cartridge_id ?s2 \<notin> set (snd (SAVE_TYPES ! i)) \<and>
       cartridge_id ?s2 \<notin> set (snd (SAVE_TYPES ! i))"
      by (simp add: init_info_def str_def)
  qed
  then have n3: "\<forall>i < length SAVE_TYPES.
       manufacturer ?s3 @ cartridge_id ?s3 \<notin> set (snd (SAVE_TYPES ! i)) \<and>
       cartridge_id ?s3 \<notin> set (snd (SAVE_TYPES ! i))"
    by simp
  from detect_save_type_first_bucket [of ?s2] n2
  have "detect_save_type ?s2 =
      ?s2\<lparr>save_type := (if size_mbits ?s2 \<ge> 256 then str ''FlashRAM''
                      else if size_mbits ?s2 \<ge> 64 then str ''SRAM''
                      else str ''EEPROM'')\<rparr>"
    by blast
  then have r2: "detect_save_type ?s2 = ?s2\<lparr>save_type := str ''FlashRAM''\<rparr>"
    by simp
  from detect_save_type_first_bucket [of ?s3] n3
  have "detect_save_type ?s3 =
      ?s3\<lparr>save_type := (if size_mbits ?s3 \<ge> 256 then str ''FlashRAM''
                      else if size_mbits ?s3 \<ge> 64 then str ''SRAM''
                      else str ''EEPROM'')\<rparr>"
    by blast
  then have r3: "detect_save_type ?s3 = ?s3\<lparr>save_type := str ''EEPROM''\<rparr>"
    by simp
  from i a r1 r2 r3 show ?thesis by simp
qed

lemma save_type_codes_length:
  "\<forall>(k, codes) \<in> set SAVE_TYPES. \<forall>c \<in> set codes. length c = 3"
  by (simp add: SAVE_TYPES_def str_def)

lemma save_type_match_without_cart:
  "\<forall>(k, codes) \<in> set tbl. cid \<notin> set codes \<Longrightarrow>
   save_type_match tbl gc cid = save_type_match_game_code_only tbl gc"
  by (induction tbl gc cid rule: save_type_match.induct) auto

lemma cart_in_no_bucket:
  assumes "length cid = 2"
  shows "\<forall>(k, codes) \<in> set SAVE_TYPES. cid \<notin> set codes"
  using save_type_codes_length assms by fastforce

lemma detect_save_type_game_code_only_eq:
  "length (cartridge_id s) = 2 \<Longrightarrow> detect_save_type s = detect_save_type_game_code_only s"
  by (simp add: detect_save_type_def detect_save_type_game_code_only_def
      save_type_match_without_cart [OF cart_in_no_bucket])

lemma cartridge_id_detect_cic [simp]: "cartridge_id (detect_cic bc s) = cartridge_id s"
  by (simp add: detect_cic_def split: option.splits)

lemma cartridge_id_parse_country [simp]: "cartridge_id (parse_country s) = cartridge_id s"
  by (simp add: parse_country_def split: option.splits)

lemma cartridge_id_detect_save_type [simp]: "cartridge_id (detect_save_type s) = cartridge_id s"
  by (simp add: detect_save_type_def split: option.splits)

lemma length_cart_slice:
  "0x3F < length header \<Longrightarrow> length (decode_ascii_replace (py_slice 0x3C 0x3E header)) = 2"
  by (simp add: decode_ascii_replace_def py_slice_def)

lemma parse_header_cart_length:
  "parse_header s0 header bootcode = (None, r) \<Longrightarrow> length (cartridge_id r) = 2"
  by (auto simp: parse_header_def Let_def byte_at_def length_cart_slice
      split: sum.splits if_splits)

lemma parse_header_game_code_only_eq:
  "parse_header s0 header bootcode = parse_header_game_code_only s0 header bootcode"
  by (auto simp: parse_header_def parse_header_game_code_only_def Let_def byte_at_def
      length_cart_slice split: sum.splits if_splits
      intro!: detect_save_type_game_code_only_eq)

text \<open>
  C10. Every code of every save-type bucket has three characters, and the cartridge id of
  a parsed header has exactly two (one per byte at 0x3C and 0x3D). So a cartridge id of
  two characters is in no bucket, the matcher agrees with the one that looks for the
  game code only, and parsing a header with either matcher gives the same result.
\<close>

theorem save_type_cartridge_id_disjunct_dead:
  "(\<forall>(k, codes) \<in> set SAVE_TYPES. \<forall>c \<in> set codes. length c = 3) \<and>
   (\<forall>r. parse_header s0 header bootcode = (None, r) \<longrightarrow> length (cartridge_id r) = 2) \<and>
   (length (cartridge_id s) = 2 \<longrightarrow>
      (\<forall>(k, codes) \<in> set SAVE_TYPES. cartridge_id s \<notin> set codes) \<and>
      detect_save_type s = detect_save_type_game_code_only s) \<and>
   parse_header s0 header bootcode = parse_header_game_code_only s0 header bootcode"
  using save_type_codes_length parse_header_cart_length cart_in_no_bucket
    detect_save_type_game_code_only_eq parse_header_game_code_only_eq
  by blast

section \<open>Byte-order transforms commute with aligned slicing\<close>

lemma halfword_swap_take_mult: "take (2 * k) (halfword_swap xs) = halfword_swap (take (2 * k) xs)"
proof (induction xs arbitrary: k rule: halfword_swap.induct)
  case (1 a b xs)
  then show ?case by (cases k) simp_all
qed (simp_all add: halfword_swap_short)

lemma halfword_swap_drop_mult: "drop (2 * k) (halfword_swap xs) = halfword_swap (drop (2 * k) xs)"
proof (induction xs arbitrary: k rule: halfword_swap.induct)
  case (1 a b xs)
  then show ?case by (cases k) simp_all
qed (simp_all add: drop_Cons')

lemma four_more: "4 + m = Suc (Suc (Suc (Suc m)))"
  by simp

lemma take_four_more: "take (4 + m) (a # b # c # d # xs) = a # b # c # d # take m xs"
  unfolding four_more by simp

lemma drop_four_more: "drop (4 + m) (a # b # c # d # xs) = drop m xs"
  unfolding four_more by simp

lemma word_swap_take_mult: "take (4 * k) (word_swap xs) = word_swap (take (4 * k) xs)"
proof (induction xs arbitrary: k rule: word_swap.induct)
  case (1 a b c d xs)
  then show ?case by (cases k) (simp_all add: take_four_more)
qed (simp_all add: word_swap_short)

lemma word_swap_drop_mult: "drop (4 * k) (word_swap xs) = word_swap (drop (4 * k) xs)"
proof (induction xs arbitrary: k rule: word_swap.induct)
  case (1 a b c d xs)
  then show ?case by (cases k) (simp_all add: drop_four_more)
qed (simp_all add: word_swap_short drop_Cons')

lemma halfword_swap_take: "even n \<Longrightarrow> take n (halfword_swap xs) = halfword_swap (take n xs)"
  using halfword_swap_take_mult by (auto elim: evenE)

lemma halfword_swap_drop: "even n \<Longrightarrow> drop n (halfword_swap xs) = halfword_swap (drop n xs)"
  using halfword_swap_drop_mult by (auto elim: evenE)

lemma word_swap_take: "4 dvd n \<Longrightarrow> take n (word_swap xs) = word_swap (take n xs)"
  using word_swap_take_mult by (auto elim: dvdE)

lemma word_swap_drop: "4 dvd n \<Longrightarrow> drop n (word_swap xs) = word_swap (drop n xs)"
  using word_swap_drop_mult by (auto elim: dvdE)

section \<open>Parsing a 64-byte header\<close>

lemma py_slice_length: "b \<le> length xs \<Longrightarrow> length (py_slice a b xs) = b - a"
  by (simp add: py_slice_def)

lemma unpack_be_u32_ok:
  "length bs = 4 \<Longrightarrow> unpack_be_u32 bs =
     Inr (uint (bs ! 0) * 2 ^ 24 + uint (bs ! 1) * 2 ^ 16 + uint (bs ! 2) * 2 ^ 8 + uint (bs ! 3))"
  by (simp add: unpack_be_u32_def)

lemma byte_at_ok: "k < length xs \<Longrightarrow> byte_at xs k = Inr (xs ! k)"
  by (simp add: byte_at_def)

lemma parse_header_no_raise:
  assumes "length header = 64"
  shows "fst (parse_header s header bootcode) = None"
proof -
  have u: "\<And>a b. b \<le> 64 \<Longrightarrow> b - a = 4 \<Longrightarrow> \<exists>v. unpack_be_u32 (py_slice a b header) = Inr v"
    using assms by (simp add: unpack_be_u32_ok py_slice_length)
  obtain ep where ep: "unpack_be_u32 (py_slice 0x08 0x0C header) = Inr ep" using u [of "0x0C" "0x08"] by auto
  obtain c1 where c1: "unpack_be_u32 (py_slice 0x10 0x14 header) = Inr c1" using u [of "0x14" "0x10"] by auto
  obtain c2 where c2: "unpack_be_u32 (py_slice 0x14 0x18 header) = Inr c2" using u [of "0x18" "0x14"] by auto
  have b: "byte_at header 0x3B = Inr (header ! 0x3B)" "byte_at header 0x3E = Inr (header ! 0x3E)"
    "byte_at header 0x3F = Inr (header ! 0x3F)"
    using assms by (simp_all add: byte_at_ok)
  show ?thesis
    by (simp add: parse_header_def ep c1 c2 b Let_def)
qed

theorem save_type_cartridge_id_disjunct_dead_witness:
  "length (cartridge_id (init_info\<lparr>cartridge_id := str ''ZL''\<rparr>)) = 2 \<and>
   detect_save_type (init_info\<lparr>cartridge_id := str ''ZL''\<rparr>) =
     detect_save_type_game_code_only (init_info\<lparr>cartridge_id := str ''ZL''\<rparr>) \<and>
   (\<exists>r. parse_header init_info (replicate 64 0) [] = (None, r) \<and> length (cartridge_id r) = 2) \<and>
   parse_header init_info (replicate 64 0) [] =
     parse_header_game_code_only init_info (replicate 64 0) []"
proof -
  note t = save_type_cartridge_id_disjunct_dead
    [of init_info "replicate 64 0" "[]" "init_info\<lparr>cartridge_id := str ''ZL''\<rparr>"]
  have l: "length (cartridge_id (init_info\<lparr>cartridge_id := str ''ZL''\<rparr>)) = 2"
    by (simp add: str_def)
  have "fst (parse_header init_info (replicate 64 0) []) = None"
    by (rule parse_header_no_raise) simp
  then obtain r where r: "parse_header init_info (replicate 64 0) [] = (None, r)"
    by (cases "parse_header init_info (replicate 64 0) []") simp
  from t have t2: "\<forall>r. parse_header init_info (replicate 64 0) [] = (None, r) \<longrightarrow> length (cartridge_id r) = 2"
    by (rule conjunct1 [OF conjunct2])
  from t2 r have "length (cartridge_id r) = 2" by simp
  with r have e: "\<exists>r. parse_header init_info (replicate 64 0) [] = (None, r) \<and> length (cartridge_id r) = 2"
    by simp
  from t have t3: "length (cartridge_id (init_info\<lparr>cartridge_id := str ''ZL''\<rparr>)) = 2 \<longrightarrow>
      (\<forall>(k, codes) \<in> set SAVE_TYPES. cartridge_id (init_info\<lparr>cartridge_id := str ''ZL''\<rparr>) \<notin> set codes) \<and>
      detect_save_type (init_info\<lparr>cartridge_id := str ''ZL''\<rparr>) =
        detect_save_type_game_code_only (init_info\<lparr>cartridge_id := str ''ZL''\<rparr>)"
    by (rule conjunct1 [OF conjunct2 [OF conjunct2]])
  from t have t4: "parse_header init_info (replicate 64 0) [] =
     parse_header_game_code_only init_info (replicate 64 0) []"
    by (rule conjunct2 [OF conjunct2 [OF conjunct2]])
  from t3 l have d: "detect_save_type (init_info\<lparr>cartridge_id := str ''ZL''\<rparr>) =
     detect_save_type_game_code_only (init_info\<lparr>cartridge_id := str ''ZL''\<rparr>)"
    by simp
  show ?thesis
    by (intro conjI) (rule l d e t4)+
qed

lemma parse_country_fields [simp]:
  "valid (parse_country s) = valid s"
  "cic_chip (parse_country s) = cic_chip s"
  "save_type (parse_country s) = save_type s"
  "format (parse_country s) = format s"
  "internal_name (parse_country s) = internal_name s"
  "crc1 (parse_country s) = crc1 s"
  "crc2 (parse_country s) = crc2 s"
  "country_code (parse_country s) = country_code s"
  "entry_point (parse_country s) = entry_point s"
  "manufacturer (parse_country s) = manufacturer s"
  "rom_version (parse_country s) = rom_version s"
  "size_mbits (parse_country s) = size_mbits s"
  "size_bytes (parse_country s) = size_bytes s"
  by (simp_all add: parse_country_def split: option.splits)

lemma detect_cic_fields [simp]:
  "valid (detect_cic bc s) = valid s"
  "region (detect_cic bc s) = region s"
  "save_type (detect_cic bc s) = save_type s"
  "format (detect_cic bc s) = format s"
  "internal_name (detect_cic bc s) = internal_name s"
  "crc1 (detect_cic bc s) = crc1 s"
  "crc2 (detect_cic bc s) = crc2 s"
  "country_code (detect_cic bc s) = country_code s"
  "entry_point (detect_cic bc s) = entry_point s"
  "manufacturer (detect_cic bc s) = manufacturer s"
  "rom_version (detect_cic bc s) = rom_version s"
  "size_mbits (detect_cic bc s) = size_mbits s"
  "size_bytes (detect_cic bc s) = size_bytes s"
  by (simp_all add: detect_cic_def split: option.splits)

lemma detect_save_type_fields [simp]:
  "valid (detect_save_type s) = valid s"
  "region (detect_save_type s) = region s"
  "cic_chip (detect_save_type s) = cic_chip s"
  "format (detect_save_type s) = format s"
  "internal_name (detect_save_type s) = internal_name s"
  "crc1 (detect_save_type s) = crc1 s"
  "crc2 (detect_save_type s) = crc2 s"
  "country_code (detect_save_type s) = country_code s"
  "entry_point (detect_save_type s) = entry_point s"
  "manufacturer (detect_save_type s) = manufacturer s"
  "rom_version (detect_save_type s) = rom_version s"
  "size_mbits (detect_save_type s) = size_mbits s"
  "size_bytes (detect_save_type s) = size_bytes s"
  by (simp_all add: detect_save_type_def Let_def split: option.splits)

lemma parse_header_full:
  assumes "length header = 64"
  shows "parse_header s header bootcode =
    (None,
     detect_save_type (detect_cic bootcode
       ((parse_country
          (s\<lparr>entry_point := projr (unpack_be_u32 (py_slice 0x08 0x0C header)),
             crc1 := projr (unpack_be_u32 (py_slice 0x10 0x14 header)),
             crc2 := projr (unpack_be_u32 (py_slice 0x14 0x18 header)),
             internal_name := clean_name (py_slice 0x20 0x34 header),
             manufacturer := (if header ! 0x3B \<noteq> 0 then [unat (header ! 0x3B)] else str ''N''),
             cartridge_id := decode_ascii_replace (py_slice 0x3C 0x3E header),
             country_code := uint (header ! 0x3E)\<rparr>))
        \<lparr>rom_version := uint (header ! 0x3F)\<rparr>)))"
proof -
  have u: "\<And>a b. b \<le> 64 \<Longrightarrow> b - a = 4 \<Longrightarrow> \<exists>v. unpack_be_u32 (py_slice a b header) = Inr v"
    using assms by (simp add: unpack_be_u32_ok py_slice_length)
  obtain ep where ep: "unpack_be_u32 (py_slice 0x08 0x0C header) = Inr ep" using u [of "0x0C" "0x08"] by auto
  obtain c1 where c1: "unpack_be_u32 (py_slice 0x10 0x14 header) = Inr c1" using u [of "0x14" "0x10"] by auto
  obtain c2 where c2: "unpack_be_u32 (py_slice 0x14 0x18 header) = Inr c2" using u [of "0x18" "0x14"] by auto
  have b: "byte_at header 0x3B = Inr (header ! 0x3B)" "byte_at header 0x3E = Inr (header ! 0x3E)"
    "byte_at header 0x3F = Inr (header ! 0x3F)"
    using assms by (simp_all add: byte_at_ok)
  show ?thesis
    by (simp add: parse_header_def ep c1 c2 b Let_def)
qed





section \<open>Failure modes of the top-level parse\<close>


lemma parse_try_early:
  "length content < 64 \<or> fault = Fault_Open \<or> fault = Fault_Read_Header \<Longrightarrow>
   snd (parse_try md5hex content fault s) = s"
  by (auto simp: parse_try_def)



lemma N64RomInfo_File:
  assumes "s = init_info\<lparr>size_bytes := int (length content),
                           size_mbits := (int (length content) * 8) div (1024 * 1024)\<rparr>"
  shows "N64RomInfo md5hex print_fault (File content fault) =
     (case parse_try md5hex content fault s of
        (None, r) \<Rightarrow> Inr r
      | (Some e, r) \<Rightarrow> (case print_fault of None \<Rightarrow> Inr r | Some print_error \<Rightarrow> Inl print_error))"
  by (simp add: assms N64RomInfo_def parse_def Let_def)














section \<open>Byte-order invariance of the parsed header\<close>

lemma fields_of_read:
  assumes "64 \<le> length content"
    and "detect_rom_format (take 0x1000 content) = (fmt, sw)"
    and "(case sw of Some f \<Rightarrow> f (take 64 (take 0x1000 content))
                   | None \<Rightarrow> take 64 (take 0x1000 content)) = H"
    and "length H = 64"
  shows "\<exists>r. N64RomInfo md5hex print_fault (File content No_Fault) = Inr r \<and>
    format r = fmt \<and>
    internal_name r = clean_name (py_slice 0x20 0x34 H) \<and>
    crc1 r = projr (unpack_be_u32 (py_slice 0x10 0x14 H)) \<and>
    crc2 r = projr (unpack_be_u32 (py_slice 0x14 0x18 H)) \<and>
    country_code r = uint (H ! 0x3E) \<and>
    entry_point r = projr (unpack_be_u32 (py_slice 0x08 0x0C H)) \<and>
    manufacturer r = (if H ! 0x3B \<noteq> 0 then [unat (H ! 0x3B)] else str ''N'') \<and>
    cartridge_id r = decode_ascii_replace (py_slice 0x3C 0x3E H) \<and>
    rom_version r = uint (H ! 0x3F)"
proof -
  let ?bc = "case sw of Some f \<Rightarrow> f (py_slice 0x40 0x1000 (take 0x1000 content))
                      | None \<Rightarrow> py_slice 0x40 0x1000 (take 0x1000 content)"
  define s where "s = init_info\<lparr>size_bytes := int (length content),
                        size_mbits := (int (length content) * 8) div (1024 * 1024)\<rparr>"
  define x where "x = snd (parse_header (s\<lparr>format := fmt\<rparr>) H ?bc)"
  have long: "\<not> length (take 0x1000 content) < 64"
    using assms(1) by simp
  have "fst (parse_header (s\<lparr>format := fmt\<rparr>) H ?bc) = None"
    using assms(4) by (rule parse_header_no_raise)
  then have r: "parse_header (s\<lparr>format := fmt\<rparr>) H ?bc = (None, x)"
    by (simp add: x_def prod_eq_iff)
  have p: "parse_try md5hex content No_Fault s =
      (None, x\<lparr>md5 := take 16 (md5hex (take (nat (min (1024 * 1024) (size_bytes x))) content)),
               valid := True\<rparr>)"
    using long by (simp add: parse_try_def Let_def assms(2) assms(3) r)
  have n: "N64RomInfo md5hex print_fault (File content No_Fault) =
      Inr (x\<lparr>md5 := take 16 (md5hex (take (nat (min (1024 * 1024) (size_bytes x))) content)),
               valid := True\<rparr>)"
    by (simp add: N64RomInfo_File [OF s_def] p)
  have f: "format x = fmt"
    "internal_name x = clean_name (py_slice 0x20 0x34 H)"
    "crc1 x = projr (unpack_be_u32 (py_slice 0x10 0x14 H))"
    "crc2 x = projr (unpack_be_u32 (py_slice 0x14 0x18 H))"
    "country_code x = uint (H ! 0x3E)"
    "entry_point x = projr (unpack_be_u32 (py_slice 0x08 0x0C H))"
    "manufacturer x = (if H ! 0x3B \<noteq> 0 then [unat (H ! 0x3B)] else str ''N'')"
    "cartridge_id x = decode_ascii_replace (py_slice 0x3C 0x3E H)"
    "rom_version x = uint (H ! 0x3F)"
    using assms(4) by (simp_all add: x_def parse_header_full)
  show ?thesis
    by (intro exI [of _ "x\<lparr>md5 := take 16 (md5hex (take (nat (min (1024 * 1024) (size_bytes x))) content)),
               valid := True\<rparr>"]) (simp add: n f)
qed

lemma magic_cons:
  assumes "take 4 content = [a, b, c, d]"
  obtains rest where "content = a # b # c # d # rest"
proof -
  from assms have "content = [a, b, c, d] @ drop 4 content"
    by (metis append_take_drop_id)
  then have "content = a # b # c # d # drop 4 content" by simp
  then show ?thesis by (rule that)
qed

lemma detect_z64:
  "detect_rom_format (take 0x1000 (0x80 # 0x37 # 0x12 # 0x40 # rest)) = (Some (str ''z64''), None)"
  by (simp add: detect_rom_format_def)

lemma detect_v64:
  "detect_rom_format (take 0x1000 (0x37 # 0x80 # 0x40 # 0x12 # rest)) =
     (Some (str ''v64''), Some swap_bytes_v64)"
  by (simp add: detect_rom_format_def)

lemma detect_n64:
  "detect_rom_format (take 0x1000 (0x40 # 0x12 # 0x37 # 0x80 # rest)) =
     (Some (str ''n64''), Some swap_bytes_n64)"
  by (simp add: detect_rom_format_def)

lemma v64_header_restored:
  "swap_bytes_v64 (take 64 (take 0x1000 (swap_bytes_v64 content))) = take 64 content"
  by (simp add: swap_bytes_v64_eq halfword_swap_take halfword_swap_involution)

lemma n64_header_restored:
  "swap_bytes_n64 (take 64 (take 0x1000 (swap_bytes_n64 content))) = take 64 content"
  by (simp add: swap_bytes_n64_eq word_swap_take word_swap_involution)


text \<open>
  C1. For every ROM file of at least 64 bytes whose bytes begin with the magic
  0x80 0x37 0x12 0x40, the file itself is detected as z64, its halfword-swapped encoding
  as v64 and its word-swapped encoding as n64, each parse returns its object, and parsing
  either encoding yields the same
  internal name, CRC1, CRC2, country code, entry point, manufacturer id, cartridge id and
  ROM version as parsing the file itself. (Both swaps are involutions, so the V64 or N64
  encoding of a canonical file is its image under the swap.)
\<close>

theorem byte_order_invariance:
  assumes "64 \<le> length content"
    and "take 4 content = [0x80, 0x37, 0x12, 0x40]"
  shows "\<exists>z v n.
    N64RomInfo md5hex print_fault (File content No_Fault) = Inr z \<and>
    N64RomInfo md5hex print_fault (File (swap_bytes_v64 content) No_Fault) = Inr v \<and>
    N64RomInfo md5hex print_fault (File (swap_bytes_n64 content) No_Fault) = Inr n \<and>
    format z = Some (str ''z64'') \<and>
    format v = Some (str ''v64'') \<and>
    format n = Some (str ''n64'') \<and>
    (\<forall>r \<in> {v, n}.
       internal_name r = internal_name z \<and>
       crc1 r = crc1 z \<and>
       crc2 r = crc2 z \<and>
       country_code r = country_code z \<and>
       entry_point r = entry_point z \<and>
       manufacturer r = manufacturer z \<and>
       cartridge_id r = cartridge_id z \<and>
       rom_version r = rom_version z)"
proof -
  from assms(2) obtain rest where c: "content = 0x80 # 0x37 # 0x12 # 0x40 # rest"
    by (rule magic_cons)
  let ?H = "take 64 content"
  have lenH: "length ?H = 64" using assms(1) by simp
  have dz: "detect_rom_format (take 0x1000 content) = (Some (str ''z64''), None)"
    unfolding c by (rule detect_z64)
  have hz: "(case None :: (byte list \<Rightarrow> byte list) option of
               Some f \<Rightarrow> f (take 64 (take 0x1000 content))
             | None \<Rightarrow> take 64 (take 0x1000 content)) = ?H"
    by simp
  from fields_of_read [OF assms(1) dz hz lenH, of md5hex print_fault]
  obtain z where z: "N64RomInfo md5hex print_fault (File content No_Fault) = Inr z"
    "format z = Some (str ''z64'')"
    "internal_name z = clean_name (py_slice 0x20 0x34 ?H)"
    "crc1 z = projr (unpack_be_u32 (py_slice 0x10 0x14 ?H))"
    "crc2 z = projr (unpack_be_u32 (py_slice 0x14 0x18 ?H))"
    "country_code z = uint (?H ! 0x3E)"
    "entry_point z = projr (unpack_be_u32 (py_slice 0x08 0x0C ?H))"
    "manufacturer z = (if ?H ! 0x3B \<noteq> 0 then [unat (?H ! 0x3B)] else str ''N'')"
    "cartridge_id z = decode_ascii_replace (py_slice 0x3C 0x3E ?H)"
    "rom_version z = uint (?H ! 0x3F)"
    by blast
  let ?v = "swap_bytes_v64 content"
  have lv: "64 \<le> length ?v" using assms(1) by (simp add: swap_bytes_v64_eq)
  have cv: "?v = 0x37 # 0x80 # 0x40 # 0x12 # halfword_swap rest"
    by (simp add: c swap_bytes_v64_eq)
  have dv: "detect_rom_format (take 0x1000 ?v) = (Some (str ''v64''), Some swap_bytes_v64)"
    unfolding cv by (rule detect_v64)
  have hv: "(case Some swap_bytes_v64 of
               Some f \<Rightarrow> f (take 64 (take 0x1000 ?v))
             | None \<Rightarrow> take 64 (take 0x1000 ?v)) = ?H"
    using v64_header_restored [of content] by simp
  from fields_of_read [OF lv dv hv lenH, of md5hex print_fault]
  obtain v where v: "N64RomInfo md5hex print_fault (File ?v No_Fault) = Inr v"
    "format v = Some (str ''v64'')"
    "internal_name v = clean_name (py_slice 0x20 0x34 ?H)"
    "crc1 v = projr (unpack_be_u32 (py_slice 0x10 0x14 ?H))"
    "crc2 v = projr (unpack_be_u32 (py_slice 0x14 0x18 ?H))"
    "country_code v = uint (?H ! 0x3E)"
    "entry_point v = projr (unpack_be_u32 (py_slice 0x08 0x0C ?H))"
    "manufacturer v = (if ?H ! 0x3B \<noteq> 0 then [unat (?H ! 0x3B)] else str ''N'')"
    "cartridge_id v = decode_ascii_replace (py_slice 0x3C 0x3E ?H)"
    "rom_version v = uint (?H ! 0x3F)"
    by blast
  let ?n = "swap_bytes_n64 content"
  have ln: "64 \<le> length ?n" using assms(1) by (simp add: swap_bytes_n64_eq)
  have cn: "?n = 0x40 # 0x12 # 0x37 # 0x80 # word_swap rest"
    by (simp add: c swap_bytes_n64_eq)
  have dn: "detect_rom_format (take 0x1000 ?n) = (Some (str ''n64''), Some swap_bytes_n64)"
    unfolding cn by (rule detect_n64)
  have hn: "(case Some swap_bytes_n64 of
               Some f \<Rightarrow> f (take 64 (take 0x1000 ?n))
             | None \<Rightarrow> take 64 (take 0x1000 ?n)) = ?H"
    using n64_header_restored [of content] by simp
  from fields_of_read [OF ln dn hn lenH, of md5hex print_fault]
  obtain n where n: "N64RomInfo md5hex print_fault (File ?n No_Fault) = Inr n"
    "format n = Some (str ''n64'')"
    "internal_name n = clean_name (py_slice 0x20 0x34 ?H)"
    "crc1 n = projr (unpack_be_u32 (py_slice 0x10 0x14 ?H))"
    "crc2 n = projr (unpack_be_u32 (py_slice 0x14 0x18 ?H))"
    "country_code n = uint (?H ! 0x3E)"
    "entry_point n = projr (unpack_be_u32 (py_slice 0x08 0x0C ?H))"
    "manufacturer n = (if ?H ! 0x3B \<noteq> 0 then [unat (?H ! 0x3B)] else str ''N'')"
    "cartridge_id n = decode_ascii_replace (py_slice 0x3C 0x3E ?H)"
    "rom_version n = uint (?H ! 0x3F)"
    by blast
  show ?thesis
    by (intro exI [of _ z] exI [of _ v] exI [of _ n])
       (simp only: z v n ball_simps insert_iff empty_iff simp_thms)
qed

theorem byte_order_invariance_witness:
  "let rom = [0x80, 0x37, 0x12, 0x40, 0x00, 0x00, 0x00, 0x0F, 0x80, 0x24, 0x60, 0x00, 0x00, 0x00,
       0x14, 0x44, 0x63, 0x5A, 0x2B, 0xFF, 0x8B, 0x02, 0x23, 0x26, 0x00, 0x00, 0x00, 0x00,
       0x00, 0x00, 0x00, 0x00, 0x53, 0x55, 0x50, 0x45, 0x52, 0x20, 0x4D, 0x41, 0x52, 0x49,
       0x4F, 0x20, 0x36, 0x34, 0x20, 0x20, 0x20, 0x20, 0x20, 0x20, 0x00, 0x00, 0x00, 0x00,
       0x00, 0x00, 0x00, 0x4E, 0x53, 0x4D, 0x45, 0x00] :: byte list
   in 64 \<le> length rom \<and> take 4 rom = [0x80, 0x37, 0x12, 0x40] \<and>
      (\<exists>z v n.
         N64RomInfo (\<lambda>b. []) None (File rom No_Fault) = Inr z \<and>
         N64RomInfo (\<lambda>b. []) None (File (swap_bytes_v64 rom) No_Fault) = Inr v \<and>
         N64RomInfo (\<lambda>b. []) None (File (swap_bytes_n64 rom) No_Fault) = Inr n \<and>
         format z = Some (str ''z64'') \<and> format v = Some (str ''v64'') \<and>
         format n = Some (str ''n64'') \<and>
         internal_name z = str ''SUPER MARIO 64'' \<and> internal_name v = str ''SUPER MARIO 64'' \<and>
         internal_name n = str ''SUPER MARIO 64'' \<and>
         entry_point z = 0x80246000 \<and> entry_point v = 0x80246000 \<and>
         entry_point n = 0x80246000 \<and>
         crc1 v = 0x635A2BFF \<and> crc2 n = 0x8B022326 \<and>
         country_code v = 0x45 \<and> manufacturer n = str ''N'' \<and> cartridge_id v = str ''SM'' \<and>
         rom_version n = 0)"
proof -
  define rom :: "byte list" where "rom = [0x80, 0x37, 0x12, 0x40, 0x00, 0x00, 0x00, 0x0F, 0x80, 0x24, 0x60, 0x00, 0x00, 0x00,
       0x14, 0x44, 0x63, 0x5A, 0x2B, 0xFF, 0x8B, 0x02, 0x23, 0x26, 0x00, 0x00, 0x00, 0x00,
       0x00, 0x00, 0x00, 0x00, 0x53, 0x55, 0x50, 0x45, 0x52, 0x20, 0x4D, 0x41, 0x52, 0x49,
       0x4F, 0x20, 0x36, 0x34, 0x20, 0x20, 0x20, 0x20, 0x20, 0x20, 0x00, 0x00, 0x00, 0x00,
       0x00, 0x00, 0x00, 0x4E, 0x53, 0x4D, 0x45, 0x00]"
  have h1: "64 \<le> length rom" by (simp add: rom_def)
  have h2: "take 4 rom = [0x80, 0x37, 0x12, 0x40]" by (simp add: rom_def)
  from byte_order_invariance [OF h1 h2, of "\<lambda>b. []" None]
  obtain z v n where t:
    "N64RomInfo (\<lambda>b. []) None (File rom No_Fault) = Inr z"
    "N64RomInfo (\<lambda>b. []) None (File (swap_bytes_v64 rom) No_Fault) = Inr v"
    "N64RomInfo (\<lambda>b. []) None (File (swap_bytes_n64 rom) No_Fault) = Inr n"
    "format z = Some (str ''z64'')" "format v = Some (str ''v64'')" "format n = Some (str ''n64'')"
    and e: "\<forall>r \<in> {v, n}.
       internal_name r = internal_name z \<and> crc1 r = crc1 z \<and> crc2 r = crc2 z \<and>
       country_code r = country_code z \<and> entry_point r = entry_point z \<and>
       manufacturer r = manufacturer z \<and> cartridge_id r = cartridge_id z \<and>
       rom_version r = rom_version z"
    by blast
  have dz: "detect_rom_format (take 0x1000 rom) = (Some (str ''z64''), None)"
    by (simp add: rom_def detect_rom_format_def)
  have hz: "(case None :: (byte list \<Rightarrow> byte list) option of
               Some f \<Rightarrow> f (take 64 (take 0x1000 rom))
             | None \<Rightarrow> take 64 (take 0x1000 rom)) = rom"
    by (simp add: rom_def)
  have lr: "length rom = 64" by (simp add: rom_def)
  from fields_of_read [OF h1 dz hz lr, of "\<lambda>b. []" None] t(1)
  have z: "internal_name z = clean_name (py_slice 0x20 0x34 rom)"
    "crc1 z = projr (unpack_be_u32 (py_slice 0x10 0x14 rom))"
    "crc2 z = projr (unpack_be_u32 (py_slice 0x14 0x18 rom))"
    "country_code z = uint (rom ! 0x3E)"
    "entry_point z = projr (unpack_be_u32 (py_slice 0x08 0x0C rom))"
    "manufacturer z = (if rom ! 0x3B \<noteq> 0 then [unat (rom ! 0x3B)] else str ''N'')"
    "cartridge_id z = decode_ascii_replace (py_slice 0x3C 0x3E rom)"
    "rom_version z = uint (rom ! 0x3F)"
    by auto
  have name: "clean_name (py_slice 0x20 0x34 rom) = str ''SUPER MARIO 64''"
    by (simp add: rom_def clean_name_def py_slice_def decode_ascii_replace_def strip_def
        py_isspace_def py_isprintable_def str_def)
  have ints: "projr (unpack_be_u32 (py_slice 0x08 0x0C rom)) = 0x80246000"
    "projr (unpack_be_u32 (py_slice 0x10 0x14 rom)) = 0x635A2BFF"
    "projr (unpack_be_u32 (py_slice 0x14 0x18 rom)) = 0x8B022326"
    by (simp_all add: rom_def unpack_be_u32_def py_slice_def)
  have bytes: "uint (rom ! 0x3E) = 0x45" "uint (rom ! 0x3F) = 0"
    "decode_ascii_replace (py_slice 0x3C 0x3E rom) = str ''SM''"
    by (simp_all add: rom_def py_slice_def decode_ascii_replace_def str_def)
  have man: "(if rom ! 0x3B \<noteq> 0 then [unat (rom ! 0x3B)] else str ''N'') = str ''N''"
    by (simp add: rom_def str_def)
  have zv: "internal_name z = str ''SUPER MARIO 64''" "entry_point z = 0x80246000"
    "crc1 z = 0x635A2BFF" "crc2 z = 0x8B022326" "country_code z = 0x45"
    "manufacturer z = str ''N''" "cartridge_id z = str ''SM''" "rom_version z = 0"
    by (simp_all only: z name ints bytes man)
  have "64 \<le> length rom \<and> take 4 rom = [0x80, 0x37, 0x12, 0x40] \<and>
      (\<exists>z v n.
         N64RomInfo (\<lambda>b. []) None (File rom No_Fault) = Inr z \<and>
         N64RomInfo (\<lambda>b. []) None (File (swap_bytes_v64 rom) No_Fault) = Inr v \<and>
         N64RomInfo (\<lambda>b. []) None (File (swap_bytes_n64 rom) No_Fault) = Inr n \<and>
         format z = Some (str ''z64'') \<and> format v = Some (str ''v64'') \<and>
         format n = Some (str ''n64'') \<and>
         internal_name z = str ''SUPER MARIO 64'' \<and> internal_name v = str ''SUPER MARIO 64'' \<and>
         internal_name n = str ''SUPER MARIO 64'' \<and>
         entry_point z = 0x80246000 \<and> entry_point v = 0x80246000 \<and>
         entry_point n = 0x80246000 \<and>
         crc1 v = 0x635A2BFF \<and> crc2 n = 0x8B022326 \<and>
         country_code v = 0x45 \<and> manufacturer n = str ''N'' \<and> cartridge_id v = str ''SM'' \<and>
         rom_version n = 0)"
    using h1 h2 t e zv
    by (intro conjI exI [of _ z] exI [of _ v] exI [of _ n]) simp_all
  then show ?thesis
    unfolding rom_def Let_def .
qed

end
